theory Spec2Isabelle
  imports Main
begin

section \<open>Python values, exceptions and the library operations the servers use\<close>

text \<open>
  The three servers (\<^verbatim>\<open>mcp_server.py\<close>, \<^verbatim>\<open>mongodb_mcp.py\<close>, \<^verbatim>\<open>postgres_mcp.py\<close>) and their
  backing modules handle dynamically typed values: tool arguments decoded from JSON,
  documents, rows and result dictionaries. \<open>pyval\<close> is that universe: the JSON values
  and the BSON ObjectId (the one non-JSON object the code names). A dict is an
  association list in insertion order; a tuple is written as a list. Floats, dates and
  other driver objects pass through the code untouched and are not modelled.
  Strings are lists of 8-bit characters; every literal of the sources is ASCII.
\<close>

datatype pyval =
    PNone
  | PBool bool
  | PInt int
  | PStr string
  | PList "pyval list"
  | PDict "(string \<times> pyval) list"
  | PObjectId string

text \<open>
  An exception of class \<^verbatim>\<open>Exception\<close>: its class name and the text \<^verbatim>\<open>str(e)\<close> gives.
  Every \<^verbatim>\<open>except Exception\<close> of the sources catches exactly these. A computation that
  may raise returns \<open>exn + 'a\<close>, \<open>Inl\<close> being the raise.
\<close>

datatype exn = Exn string string

fun str_exn :: "exn \<Rightarrow> string" where
  "str_exn (Exn cls msg) = msg"

fun py_type_name :: "pyval \<Rightarrow> string" where
  "py_type_name PNone = ''NoneType''"
| "py_type_name (PBool b) = ''bool''"
| "py_type_name (PInt i) = ''int''"
| "py_type_name (PStr s) = ''str''"
| "py_type_name (PList xs) = ''list''"
| "py_type_name (PDict d) = ''dict''"
| "py_type_name (PObjectId h) = ''ObjectId''"

text \<open>A name between single quotes, as Python's messages show it.\<close>

definition quoted :: "string \<Rightarrow> string" where
  "quoted s = [CHR 0x27] @ s @ [CHR 0x27]"

definition attribute_error :: "pyval \<Rightarrow> string \<Rightarrow> exn" where
  "attribute_error v attr =
     Exn ''AttributeError''
       (quoted (py_type_name v) @ '' object has no attribute '' @ quoted attr)"

definition key_error :: "string \<Rightarrow> exn" where
  "key_error k = Exn ''KeyError'' (quoted k)"

text \<open>Truth value of a Python object, as \<^verbatim>\<open>if x\<close>, \<^verbatim>\<open>not x\<close> and \<^verbatim>\<open>x or y\<close> test it.\<close>

fun py_truthy :: "pyval \<Rightarrow> bool" where
  "py_truthy PNone = False"
| "py_truthy (PBool b) = b"
| "py_truthy (PInt i) = (i \<noteq> 0)"
| "py_truthy (PStr s) = (s \<noteq> [])"
| "py_truthy (PList xs) = (xs \<noteq> [])"
| "py_truthy (PDict d) = (d \<noteq> [])"
| "py_truthy (PObjectId h) = True"

definition py_or :: "pyval \<Rightarrow> pyval \<Rightarrow> pyval" where
  "py_or a b = (if py_truthy a then a else b)"

subsection \<open>Dictionaries\<close>

text \<open>\<^verbatim>\<open>d.get(k, default)\<close> and \<^verbatim>\<open>d.get(k)\<close> (default \<^verbatim>\<open>None\<close>) on a dict.\<close>

definition dict_get :: "(string \<times> pyval) list \<Rightarrow> string \<Rightarrow> pyval \<Rightarrow> pyval" where
  "dict_get d k dflt = (case map_of d k of None \<Rightarrow> dflt | Some v \<Rightarrow> v)"

text \<open>\<^verbatim>\<open>d[k]\<close> on a dict: a missing key raises \<^verbatim>\<open>KeyError\<close>.\<close>

definition dict_index :: "(string \<times> pyval) list \<Rightarrow> string \<Rightarrow> exn + pyval" where
  "dict_index d k = (case map_of d k of None \<Rightarrow> Inl (key_error k) | Some v \<Rightarrow> Inr v)"

text \<open>\<^verbatim>\<open>d[k] = v\<close>: an existing key keeps its place, a new key goes last.\<close>

fun dict_set :: "(string \<times> pyval) list \<Rightarrow> string \<Rightarrow> pyval \<Rightarrow> (string \<times> pyval) list" where
  "dict_set [] k v = [(k, v)]"
| "dict_set ((k', v') # d) k v = (if k' = k then (k, v) # d else (k', v') # dict_set d k v)"

text \<open>
  The method \<^verbatim>\<open>x.get(k, default)\<close> on an arbitrary object: anything but a dict has no
  such attribute.
\<close>

definition py_get :: "pyval \<Rightarrow> string \<Rightarrow> pyval \<Rightarrow> exn + pyval" where
  "py_get x k dflt =
     (case x of PDict d \<Rightarrow> Inr (dict_get d k dflt) | _ \<Rightarrow> Inl (attribute_error x ''get''))"

text \<open>\<^verbatim>\<open>list(x.keys())\<close>.\<close>

definition py_keys :: "pyval \<Rightarrow> exn + string list" where
  "py_keys x = (case x of PDict d \<Rightarrow> Inr (map fst d) | _ \<Rightarrow> Inl (attribute_error x ''keys''))"

subsection \<open>Strings\<close>

text \<open>\<^verbatim>\<open>s.startswith(p)\<close>.\<close>

definition startswith :: "string \<Rightarrow> string \<Rightarrow> bool" where
  "startswith s p = (take (length p) s = p)"

text \<open>\<^verbatim>\<open>p in s\<close> for two strings: \<open>p\<close> occurs in \<open>s\<close> as a contiguous run.\<close>

fun str_contains :: "string \<Rightarrow> string \<Rightarrow> bool" where
  "str_contains [] p = (p = [])"
| "str_contains (c # s) p = (startswith (c # s) p \<or> str_contains s p)"

text \<open>
  \<^verbatim>\<open>str.isspace\<close> on one character and \<^verbatim>\<open>s.strip()\<close>. On the 8-bit characters of the
  model the whitespace of Python is tab to carriage return, the four separators
  0x1C to 0x1F, the space, and 0x85 and 0xA0.
\<close>

definition py_isspace :: "char \<Rightarrow> bool" where
  "py_isspace c =
     (let n = of_char c :: nat
      in (9 \<le> n \<and> n \<le> 13) \<or> (28 \<le> n \<and> n \<le> 32) \<or> n = 133 \<or> n = 160)"

definition strip :: "string \<Rightarrow> string" where
  "strip s = rev (dropWhile py_isspace (rev (dropWhile py_isspace s)))"

text \<open>
  \<^verbatim>\<open>s.upper()\<close>: the letters a to z become A to Z. Python also maps letters beyond ASCII;
  the model agrees with it on ASCII text.
\<close>

definition upper_char :: "char \<Rightarrow> char" where
  "upper_char c =
     (let n = of_char c :: nat in if 97 \<le> n \<and> n \<le> 122 then char_of (n - 32) else c)"

definition upper :: "string \<Rightarrow> string" where
  "upper s = map upper_char s"

text \<open>\<^verbatim>\<open>str(n)\<close> for an integer, as the f-strings of the sources format counts.\<close>

fun str_nat :: "nat \<Rightarrow> string" where
  "str_nat n = (if n < 10 then [char_of (48 + n)] else str_nat (n div 10) @ [char_of (48 + n mod 10)])"

definition str_int :: "int \<Rightarrow> string" where
  "str_int i = (if i < 0 then CHR ''-'' # str_nat (nat (- i)) else str_nat (nat i))"

subsection \<open>The uniform result shape and \<^verbatim>\<open>json.dumps\<close>\<close>

text \<open>
  \<^verbatim>\<open>{"success": False, "error": str(e)}\<close>, the failure shape every \<^verbatim>\<open>except\<close> block of the
  backing modules and of the dispatchers builds.
\<close>

definition fail_result :: "exn \<Rightarrow> pyval" where
  "fail_result e = PDict [(''success'', PBool False), (''error'', PStr (str_exn e))]"

text \<open>
  \<^verbatim>\<open>json.dumps(v, indent=2)\<close> and \<^verbatim>\<open>json.dumps(v, indent=2, default=str)\<close>. The model stops
  at the JSON document that the text renders: the result is the value with every object
  that is not a JSON value replaced by what \<^verbatim>\<open>default\<close> makes of it. Without
  \<^verbatim>\<open>default\<close> such an object raises \<^verbatim>\<open>TypeError\<close>. The argument \<open>dflt\<close> is \<^verbatim>\<open>str\<close> on
  objects where the call passes \<^verbatim>\<open>default=str\<close>.
\<close>

fun json_dumps :: "(pyval \<Rightarrow> string) option \<Rightarrow> pyval \<Rightarrow> exn + pyval"
  and json_dumps_list :: "(pyval \<Rightarrow> string) option \<Rightarrow> pyval list \<Rightarrow> exn + pyval list"
  and json_dumps_items ::
    "(pyval \<Rightarrow> string) option \<Rightarrow> (string \<times> pyval) list \<Rightarrow> exn + (string \<times> pyval) list"
where
  "json_dumps dflt PNone = Inr PNone"
| "json_dumps dflt (PBool b) = Inr (PBool b)"
| "json_dumps dflt (PInt i) = Inr (PInt i)"
| "json_dumps dflt (PStr s) = Inr (PStr s)"
| "json_dumps dflt (PList xs) =
     (case json_dumps_list dflt xs of Inl e \<Rightarrow> Inl e | Inr ys \<Rightarrow> Inr (PList ys))"
| "json_dumps dflt (PDict d) =
     (case json_dumps_items dflt d of Inl e \<Rightarrow> Inl e | Inr d' \<Rightarrow> Inr (PDict d'))"
| "json_dumps dflt (PObjectId h) =
     (case dflt of
        None \<Rightarrow> Inl (Exn ''TypeError'' ''Object of type ObjectId is not JSON serializable'')
      | Some f \<Rightarrow> Inr (PStr (f (PObjectId h))))"
| "json_dumps_list dflt [] = Inr []"
| "json_dumps_list dflt (x # xs) =
     (case json_dumps dflt x of
        Inl e \<Rightarrow> Inl e
      | Inr y \<Rightarrow> (case json_dumps_list dflt xs of Inl e \<Rightarrow> Inl e | Inr ys \<Rightarrow> Inr (y # ys)))"
| "json_dumps_items dflt [] = Inr []"
| "json_dumps_items dflt ((k, v) # d) =
     (case json_dumps dflt v of
        Inl e \<Rightarrow> Inl e
      | Inr v' \<Rightarrow>
          (case json_dumps_items dflt d of Inl e \<Rightarrow> Inl e | Inr d' \<Rightarrow> Inr ((k, v') # d')))"

text \<open>
  \<^verbatim>\<open>TextContent(type="text", text=...)\<close>: the one item of the list a handler returns. The
  second field holds the JSON document whose rendering the real \<^verbatim>\<open>text\<close> is.
\<close>

datatype text_content = TextContent (content_type: string) (content_text: pyval)


subsection \<open>Statements of a \<^verbatim>\<open>try\<close> block\<close>

text \<open>
  A function of the backing modules talks to a database through a driver. The model
  returns, next to the function's result, the list of driver requests it made, in order.
  A block under \<^verbatim>\<open>try\<close> is a chain of statements, each of which may raise:
  \<open>try_step\<close> is a statement that makes no request, \<open>try_call\<close> one that makes the
  request \<open>ev\<close> and gets \<open>reply\<close>, \<open>do_effect\<close> a request that does not raise
  (closing a client or a connection). A raise leaves the block with the exception and
  the requests made so far.
\<close>

definition try_step :: "exn + 'a \<Rightarrow> ('a \<Rightarrow> (exn + 'b) \<times> 'e list) \<Rightarrow> (exn + 'b) \<times> 'e list" where
  "try_step m f = (case m of Inl e \<Rightarrow> (Inl e, []) | Inr x \<Rightarrow> f x)"

definition try_call ::
  "'e \<Rightarrow> exn + 'a \<Rightarrow> ('a \<Rightarrow> (exn + 'b) \<times> 'e list) \<Rightarrow> (exn + 'b) \<times> 'e list" where
  "try_call ev reply f =
     (case reply of
        Inl e \<Rightarrow> (Inl e, [ev])
      | Inr x \<Rightarrow> (case f x of (r, evs) \<Rightarrow> (r, ev # evs)))"

definition do_effect :: "'e \<Rightarrow> (exn + 'b) \<times> 'e list \<Rightarrow> (exn + 'b) \<times> 'e list" where
  "do_effect ev rest = (case rest of (r, evs) \<Rightarrow> (r, ev # evs))"

text \<open>
  \<^verbatim>\<open>try: ... except Exception as e: return {"success": False, "error": str(e)}\<close> around
  a block that returns its result.
\<close>

definition guarded :: "(exn + pyval) \<times> 'e list \<Rightarrow> pyval \<times> 'e list" where
  "guarded block = (case block of (Inl e, evs) \<Rightarrow> (fail_result e, evs) | (Inr r, evs) \<Rightarrow> (r, evs))"

text \<open>
  The Python runtime and standard library, as far as the code calls them with values the
  model cannot compute: \<^verbatim>\<open>str(x)\<close> on a value and \<^verbatim>\<open>json.loads(s)\<close>. They are parameters
  of the model.
\<close>

record py_lib =
  py_str :: "pyval \<Rightarrow> string"
  json_loads :: "string \<Rightarrow> exn + pyval"

text \<open>\<^verbatim>\<open>if isinstance(x, str): x = json.loads(x)\<close>.\<close>

definition parse_if_str :: "'z py_lib_scheme \<Rightarrow> pyval \<Rightarrow> exn + pyval" where
  "parse_if_str env x = (case x of PStr s \<Rightarrow> json_loads env s | _ \<Rightarrow> Inr x)"

section \<open>\<^verbatim>\<open>mongodb_db.py\<close>: the MongoDB backing functions\<close>

text \<open>
  The driver (pymongo, bson) is the environment: each field is one call of the driver
  and answers with a value or with the exception the call raises. \<open>'c\<close> is a client,
  \<open>'d\<close> a database handle, \<open>'k\<close> a collection handle.
  \<^item> \<open>m_connect uri\<close>: \<^verbatim>\<open>MongoClient(uri, server_api=ServerApi('1'))\<close> followed by the
    \<^verbatim>\<open>ping\<close> command.
  \<^item> \<open>m_database\<close>, \<open>m_collection\<close>: \<^verbatim>\<open>client[database_name]\<close>, \<^verbatim>\<open>db[collection_name]\<close>.
  \<^item> \<open>m_find c query sort skip limit\<close>: the documents that
    \<^verbatim>\<open>list(c.find(query).sort(sort).skip(skip).limit(limit))\<close> yields, the sort being
    left out when \<open>sort\<close> is \<open>None\<close>.
  \<^item> \<open>m_insert_one\<close> and \<open>m_insert_many\<close> answer with the inserted id(s), \<open>m_delete_one\<close>
    and \<open>m_delete_many\<close> with \<^verbatim>\<open>deleted_count\<close>, the updates with an \<open>update_result\<close>.
  \<^item> \<open>bson_ObjectId x\<close>: the constructor \<^verbatim>\<open>ObjectId(x)\<close>.
  Closing a client does not raise in the model.
\<close>

record update_result =
  matched_count :: int
  modified_count :: int
  upserted_id :: pyval

record ('c, 'd, 'k) mongo_env = py_lib +
  bson_ObjectId :: "pyval \<Rightarrow> exn + pyval"
  m_connect :: "pyval \<Rightarrow> exn + 'c"
  m_database :: "'c \<Rightarrow> pyval \<Rightarrow> exn + 'd"
  m_collection :: "'d \<Rightarrow> pyval \<Rightarrow> exn + 'k"
  m_list_database_names :: "'c \<Rightarrow> exn + pyval list"
  m_list_collection_names :: "'d \<Rightarrow> exn + pyval list"
  m_find :: "'k \<Rightarrow> pyval \<Rightarrow> pyval option \<Rightarrow> pyval \<Rightarrow> pyval \<Rightarrow> exn + pyval list"
  m_insert_one :: "'k \<Rightarrow> pyval \<Rightarrow> exn + pyval"
  m_insert_many :: "'k \<Rightarrow> pyval \<Rightarrow> exn + pyval list"
  m_update_one :: "'k \<Rightarrow> pyval \<Rightarrow> pyval \<Rightarrow> pyval \<Rightarrow> exn + update_result"
  m_update_many :: "'k \<Rightarrow> pyval \<Rightarrow> pyval \<Rightarrow> pyval \<Rightarrow> exn + update_result"
  m_delete_one :: "'k \<Rightarrow> pyval \<Rightarrow> exn + int"
  m_delete_many :: "'k \<Rightarrow> pyval \<Rightarrow> exn + int"
  m_count_documents :: "'k \<Rightarrow> pyval \<Rightarrow> exn + int"
  m_aggregate :: "'k \<Rightarrow> pyval \<Rightarrow> exn + pyval list"

text \<open>
  The requests a function makes. A request on a collection records the database name
  and the collection name the handle was made from, then its arguments.
\<close>

datatype mongo_event =
    Connect pyval
  | Close
  | ListDatabaseNames
  | ListCollectionNames pyval
  | Find pyval pyval pyval "pyval option" pyval pyval
  | InsertOne pyval pyval pyval
  | InsertMany pyval pyval pyval
  | UpdateOne pyval pyval pyval pyval pyval
  | UpdateMany pyval pyval pyval pyval pyval
  | DeleteOne pyval pyval pyval
  | DeleteMany pyval pyval pyval
  | CountDocuments pyval pyval pyval
  | Aggregate pyval pyval pyval

definition get_connection :: "('c, 'd, 'k) mongo_env \<Rightarrow> pyval \<Rightarrow> exn + 'c" where
  "get_connection env mongo_uri =
     (case m_connect env mongo_uri of
        Inl e \<Rightarrow> Inl (Exn ''Exception'' (''Connection error: '' @ str_exn e))
      | Inr client \<Rightarrow> Inr client)"

text \<open>
  The frame nine of the functions share: \<^verbatim>\<open>client = None\<close>, then under \<^verbatim>\<open>try\<close> the
  connection and the block, which closes the client before it returns; the handler
  closes the client if there is one and returns the failure shape.
\<close>

definition with_client ::
  "('c, 'd, 'k) mongo_env \<Rightarrow> pyval \<Rightarrow> ('c \<Rightarrow> (exn + pyval) \<times> mongo_event list)
     \<Rightarrow> pyval \<times> mongo_event list" where
  "with_client env mongo_uri block =
     (case get_connection env mongo_uri of
        Inl e \<Rightarrow> (fail_result e, [Connect mongo_uri])
      | Inr client \<Rightarrow>
          (case block client of
             (Inr result, evs) \<Rightarrow> (result, Connect mongo_uri # evs)
           | (Inl e, evs) \<Rightarrow> (fail_result e, Connect mongo_uri # evs @ [Close])))"

text \<open>
  \<^verbatim>\<open>json.loads(bson.json_util.dumps(doc))\<close> on one document: an ObjectId comes back as
  the Extended JSON document \<^verbatim>\<open>{"$oid": hex}\<close>, JSON values come back as they are.
\<close>

fun bson_roundtrip :: "pyval \<Rightarrow> pyval" where
  "bson_roundtrip (PObjectId h) = PDict [(''$oid'', PStr h)]"
| "bson_roundtrip (PList xs) = PList (map bson_roundtrip xs)"
| "bson_roundtrip (PDict d) = PDict (map (\<lambda>kv. (fst kv, bson_roundtrip (snd kv))) d)"
| "bson_roundtrip v = v"

definition list_databases :: "('c, 'd, 'k) mongo_env \<Rightarrow> pyval \<Rightarrow> pyval \<times> mongo_event list" where
  "list_databases env mongo_uri =
     guarded
       (try_call (Connect mongo_uri) (get_connection env mongo_uri) (\<lambda>client.
        try_call ListDatabaseNames (m_list_database_names env client) (\<lambda>databases.
        do_effect Close
          (Inr (PDict [(''success'', PBool True),
                       (''databases'', PList databases),
                       (''count'', PInt (int (length databases)))]), []))))"

definition list_collections ::
  "('c, 'd, 'k) mongo_env \<Rightarrow> pyval \<Rightarrow> pyval \<Rightarrow> pyval \<times> mongo_event list" where
  "list_collections env mongo_uri database_name =
     guarded
       (try_call (Connect mongo_uri) (get_connection env mongo_uri) (\<lambda>client.
        try_step (m_database env client database_name) (\<lambda>db.
        try_call (ListCollectionNames database_name) (m_list_collection_names env db)
          (\<lambda>collections.
        do_effect Close
          (Inr (PDict [(''success'', PBool True),
                       (''database'', database_name),
                       (''collections'', PList collections),
                       (''count'', PInt (int (length collections)))]), [])))))"

text \<open>
  Lines 72 to 75 and 316 to 319: a string query is parsed, the empty string and \<^verbatim>\<open>None\<close>
  stand for the empty filter, anything else is taken as it is.
\<close>

definition parse_query :: "'z py_lib_scheme \<Rightarrow> pyval \<Rightarrow> exn + pyval" where
  "parse_query env query =
     (case query of
        PStr s \<Rightarrow> (if s \<noteq> [] then json_loads env s else Inr (PDict []))
      | PNone \<Rightarrow> Inr (PDict [])
      | _ \<Rightarrow> Inr query)"

text \<open>Lines 78 and 79: \<^verbatim>\<open>sort = json.loads(sort) if sort else None\<close> for a string.\<close>

definition parse_sort :: "'z py_lib_scheme \<Rightarrow> pyval \<Rightarrow> exn + pyval" where
  "parse_sort env sort' =
     (case sort' of
        PStr s \<Rightarrow> (if s \<noteq> [] then json_loads env s else Inr PNone)
      | _ \<Rightarrow> Inr sort')"

text \<open>
  Lines 85 and 86: no sort when \<^verbatim>\<open>sort\<close> is falsy; a dict is passed as the list of its
  items (each pair written as a two-element list), anything else as it is.
\<close>

definition sort_spec :: "pyval \<Rightarrow> pyval option" where
  "sort_spec sort' =
     (if py_truthy sort'
      then Some (case sort' of
                   PDict d \<Rightarrow> PList (map (\<lambda>kv. PList [PStr (fst kv), snd kv]) d)
                 | _ \<Rightarrow> sort')
      else None)"

definition find_documents ::
  "('c, 'd, 'k) mongo_env \<Rightarrow> pyval \<Rightarrow> pyval \<Rightarrow> pyval \<Rightarrow> pyval \<Rightarrow> pyval \<Rightarrow> pyval \<Rightarrow> pyval
     \<Rightarrow> pyval \<times> mongo_event list" where
  "find_documents env mongo_uri database_name collection_name query limit skip sort' =
     with_client env mongo_uri (\<lambda>client.
       try_step (m_database env client database_name) (\<lambda>db.
       try_step (m_collection env db collection_name) (\<lambda>collection.
       try_step (parse_query env query) (\<lambda>query.
       try_step (parse_sort env sort') (\<lambda>sort'.
       try_call (Find database_name collection_name query (sort_spec sort') skip limit)
         (m_find env collection query (sort_spec sort') skip limit) (\<lambda>documents.
       let result = map bson_roundtrip documents in
       do_effect Close
         (Inr (PDict [(''success'', PBool True),
                      (''database'', database_name),
                      (''collection'', collection_name),
                      (''documents'', PList result),
                      (''count'', PInt (int (length result)))]), [])))))))"

definition insert_document ::
  "('c, 'd, 'k) mongo_env \<Rightarrow> pyval \<Rightarrow> pyval \<Rightarrow> pyval \<Rightarrow> pyval \<Rightarrow> pyval \<times> mongo_event list" where
  "insert_document env mongo_uri database_name collection_name document =
     with_client env mongo_uri (\<lambda>client.
       try_step (m_database env client database_name) (\<lambda>db.
       try_step (m_collection env db collection_name) (\<lambda>collection.
       try_step (parse_if_str env document) (\<lambda>document.
       try_call (InsertOne database_name collection_name document)
         (m_insert_one env collection document) (\<lambda>inserted_id.
       do_effect Close
         (Inr (PDict [(''success'', PBool True),
                      (''database'', database_name),
                      (''collection'', collection_name),
                      (''inserted_id'', PStr (py_str env inserted_id)),
                      (''message'', PStr ''Document inserted successfully'')]), []))))))"

definition insert_many_documents ::
  "('c, 'd, 'k) mongo_env \<Rightarrow> pyval \<Rightarrow> pyval \<Rightarrow> pyval \<Rightarrow> pyval \<Rightarrow> pyval \<times> mongo_event list" where
  "insert_many_documents env mongo_uri database_name collection_name documents =
     with_client env mongo_uri (\<lambda>client.
       try_step (m_database env client database_name) (\<lambda>db.
       try_step (m_collection env db collection_name) (\<lambda>collection.
       try_step (parse_if_str env documents) (\<lambda>documents.
       try_call (InsertMany database_name collection_name documents)
         (m_insert_many env collection documents) (\<lambda>inserted_ids.
       do_effect Close
         (Inr (PDict [(''success'', PBool True),
                      (''database'', database_name),
                      (''collection'', collection_name),
                      (''inserted_ids'', PList (map (\<lambda>id. PStr (py_str env id)) inserted_ids)),
                      (''count'', PInt (int (length inserted_ids))),
                      (''message'', PStr (str_int (int (length inserted_ids))
                                          @ '' documents inserted successfully''))]), []))))))"

text \<open>
  \<^verbatim>\<open>if '_id' in filter_query: filter_query['_id'] = ObjectId(filter_query['_id'])\<close>,
  the statement of the update and delete functions under the comment
  \<^verbatim>\<open>Convert _id string to ObjectId if present\<close>. On a dict it replaces the value under
  the top-level key. The membership test also answers for a list (an element equal to
  the string) and for a string (a substring); the subscript then raises \<^verbatim>\<open>TypeError\<close>.
  Any other object is not iterable. The messages are those of CPython 3.12.
\<close>

definition convert_id :: "('c, 'd, 'k) mongo_env \<Rightarrow> pyval \<Rightarrow> exn + pyval" where
  "convert_id env filter_query =
     (case filter_query of
        PDict d \<Rightarrow>
          (case map_of d ''_id'' of
             None \<Rightarrow> Inr filter_query
           | Some v \<Rightarrow>
               (case bson_ObjectId env v of
                  Inl e \<Rightarrow> Inl e
                | Inr oid \<Rightarrow> Inr (PDict (dict_set d ''_id'' oid))))
      | PList xs \<Rightarrow>
          (if PStr ''_id'' \<in> set xs
           then Inl (Exn ''TypeError'' ''list indices must be integers or slices, not str'')
           else Inr filter_query)
      | PStr s \<Rightarrow>
          (if str_contains s ''_id''
           then Inl (Exn ''TypeError'' (''string indices must be integers, not '' @ quoted ''str''))
           else Inr filter_query)
      | _ \<Rightarrow>
          Inl (Exn ''TypeError''
                 (''argument of type '' @ quoted (py_type_name filter_query)
                  @ '' is not iterable'')))"

text \<open>
  \<^verbatim>\<open>if not any(key.startswith('$') for key in update_data.keys()):\<close>
  \<^verbatim>\<open>update_data = {'$set': update_data}\<close>, under the comment
  \<^verbatim>\<open>Add $set operator if update_data doesn't have operators\<close>.
\<close>

definition has_operator :: "(string \<times> pyval) list \<Rightarrow> bool" where
  "has_operator d = list_ex (\<lambda>key. startswith key ''$'') (map fst d)"

definition add_set_operator :: "pyval \<Rightarrow> exn + pyval" where
  "add_set_operator update_data =
     (case update_data of
        PDict d \<Rightarrow>
          Inr (if \<not> has_operator d then PDict [(''$set'', update_data)] else update_data)
      | _ \<Rightarrow> Inl (attribute_error update_data ''keys''))"

text \<open>The result dictionary the two update functions build from the driver's answer.\<close>

definition update_payload :: "'z py_lib_scheme \<Rightarrow> pyval \<Rightarrow> pyval \<Rightarrow> update_result \<Rightarrow> pyval" where
  "update_payload env database_name collection_name result =
     PDict [(''success'', PBool True),
            (''database'', database_name),
            (''collection'', collection_name),
            (''matched_count'', PInt (matched_count result)),
            (''modified_count'', PInt (modified_count result)),
            (''upserted_id'',
               (if py_truthy (upserted_id result)
                then PStr (py_str env (upserted_id result)) else PNone)),
            (''message'',
               PStr (''Update completed. Matched: '' @ str_int (matched_count result)
                     @ '', Modified: '' @ str_int (modified_count result)))]"

definition update_document ::
  "('c, 'd, 'k) mongo_env \<Rightarrow> pyval \<Rightarrow> pyval \<Rightarrow> pyval \<Rightarrow> pyval \<Rightarrow> pyval \<Rightarrow> pyval
     \<Rightarrow> pyval \<times> mongo_event list" where
  "update_document env mongo_uri database_name collection_name filter_query update_data upsert =
     with_client env mongo_uri (\<lambda>client.
       try_step (m_database env client database_name) (\<lambda>db.
       try_step (m_collection env db collection_name) (\<lambda>collection.
       try_step (parse_if_str env filter_query) (\<lambda>filter_query.
       try_step (parse_if_str env update_data) (\<lambda>update_data.
       try_step (convert_id env filter_query) (\<lambda>filter_query.
       try_step (add_set_operator update_data) (\<lambda>update_data.
       try_call (UpdateOne database_name collection_name filter_query update_data upsert)
         (m_update_one env collection filter_query update_data upsert) (\<lambda>result.
       do_effect Close
         (Inr (update_payload env database_name collection_name result), [])))))))))"

definition update_many_documents ::
  "('c, 'd, 'k) mongo_env \<Rightarrow> pyval \<Rightarrow> pyval \<Rightarrow> pyval \<Rightarrow> pyval \<Rightarrow> pyval \<Rightarrow> pyval
     \<Rightarrow> pyval \<times> mongo_event list" where
  "update_many_documents env mongo_uri database_name collection_name filter_query update_data
       upsert =
     with_client env mongo_uri (\<lambda>client.
       try_step (m_database env client database_name) (\<lambda>db.
       try_step (m_collection env db collection_name) (\<lambda>collection.
       try_step (parse_if_str env filter_query) (\<lambda>filter_query.
       try_step (parse_if_str env update_data) (\<lambda>update_data.
       try_step (convert_id env filter_query) (\<lambda>filter_query.
       try_step (add_set_operator update_data) (\<lambda>update_data.
       try_call (UpdateMany database_name collection_name filter_query update_data upsert)
         (m_update_many env collection filter_query update_data upsert) (\<lambda>result.
       do_effect Close
         (Inr (update_payload env database_name collection_name result), [])))))))))"

text \<open>The result dictionary of the two delete functions.\<close>

definition delete_payload :: "pyval \<Rightarrow> pyval \<Rightarrow> int \<Rightarrow> pyval" where
  "delete_payload database_name collection_name deleted_count =
     PDict [(''success'', PBool True),
            (''database'', database_name),
            (''collection'', collection_name),
            (''deleted_count'', PInt deleted_count),
            (''message'', PStr (str_int deleted_count @ '' document(s) deleted''))]"

definition delete_document ::
  "('c, 'd, 'k) mongo_env \<Rightarrow> pyval \<Rightarrow> pyval \<Rightarrow> pyval \<Rightarrow> pyval \<Rightarrow> pyval \<times> mongo_event list" where
  "delete_document env mongo_uri database_name collection_name filter_query =
     with_client env mongo_uri (\<lambda>client.
       try_step (m_database env client database_name) (\<lambda>db.
       try_step (m_collection env db collection_name) (\<lambda>collection.
       try_step (parse_if_str env filter_query) (\<lambda>filter_query.
       try_step (convert_id env filter_query) (\<lambda>filter_query.
       try_call (DeleteOne database_name collection_name filter_query)
         (m_delete_one env collection filter_query) (\<lambda>deleted_count.
       do_effect Close
         (Inr (delete_payload database_name collection_name deleted_count), [])))))))"

definition delete_many_documents ::
  "('c, 'd, 'k) mongo_env \<Rightarrow> pyval \<Rightarrow> pyval \<Rightarrow> pyval \<Rightarrow> pyval \<Rightarrow> pyval \<times> mongo_event list" where
  "delete_many_documents env mongo_uri database_name collection_name filter_query =
     with_client env mongo_uri (\<lambda>client.
       try_step (m_database env client database_name) (\<lambda>db.
       try_step (m_collection env db collection_name) (\<lambda>collection.
       try_step (parse_if_str env filter_query) (\<lambda>filter_query.
       try_step (convert_id env filter_query) (\<lambda>filter_query.
       try_call (DeleteMany database_name collection_name filter_query)
         (m_delete_many env collection filter_query) (\<lambda>deleted_count.
       do_effect Close
         (Inr (delete_payload database_name collection_name deleted_count), [])))))))"

definition count_documents ::
  "('c, 'd, 'k) mongo_env \<Rightarrow> pyval \<Rightarrow> pyval \<Rightarrow> pyval \<Rightarrow> pyval \<Rightarrow> pyval \<times> mongo_event list" where
  "count_documents env mongo_uri database_name collection_name query =
     with_client env mongo_uri (\<lambda>client.
       try_step (m_database env client database_name) (\<lambda>db.
       try_step (m_collection env db collection_name) (\<lambda>collection.
       try_step (parse_query env query) (\<lambda>query.
       try_call (CountDocuments database_name collection_name query)
         (m_count_documents env collection query) (\<lambda>count.
       do_effect Close
         (Inr (PDict [(''success'', PBool True),
                      (''database'', database_name),
                      (''collection'', collection_name),
                      (''count'', PInt count)]), []))))))"

definition aggregate ::
  "('c, 'd, 'k) mongo_env \<Rightarrow> pyval \<Rightarrow> pyval \<Rightarrow> pyval \<Rightarrow> pyval \<Rightarrow> pyval \<times> mongo_event list" where
  "aggregate env mongo_uri database_name collection_name pipeline =
     with_client env mongo_uri (\<lambda>client.
       try_step (m_database env client database_name) (\<lambda>db.
       try_step (m_collection env db collection_name) (\<lambda>collection.
       try_step (parse_if_str env pipeline) (\<lambda>pipeline.
       try_call (Aggregate database_name collection_name pipeline)
         (m_aggregate env collection pipeline) (\<lambda>result.
       let result_data = map bson_roundtrip result in
       do_effect Close
         (Inr (PDict [(''success'', PBool True),
                      (''database'', database_name),
                      (''collection'', collection_name),
                      (''documents'', PList result_data),
                      (''count'', PInt (int (length result_data)))]), []))))))"

section \<open>\<^verbatim>\<open>postgres_db.py\<close>: the PostgreSQL backing functions\<close>

text \<open>
  The driver (psycopg2) is the environment. \<open>'c\<close> is a connection.
  \<^item> \<open>pg_connect db_url\<close>: \<^verbatim>\<open>psycopg2.connect(**parse_db_url(db_url))\<close>, the parsing of the
    URL included: \<^verbatim>\<open>get_connection\<close> wraps both in one \<^verbatim>\<open>try\<close>.
  \<^item> \<open>pg_execute conn query vars\<close>: \<^verbatim>\<open>cursor.execute(query, vars)\<close> on a fresh cursor of
    \<open>conn\<close> (\<open>vars\<close> is \<open>None\<close> where the call passes no second argument). It answers
    with what the cursor then holds: what \<^verbatim>\<open>fetchall()\<close> and \<^verbatim>\<open>fetchone()\<close> give or raise,
    and \<^verbatim>\<open>rowcount\<close>. Rows are dicts (\<^verbatim>\<open>RealDictCursor\<close>).
  \<^item> \<open>pg_commit conn query vars\<close>: \<^verbatim>\<open>conn.commit()\<close> after that statement.
  Closing and rolling back a connection do not raise in the model.
\<close>

record cursor_state =
  fetchall :: "exn + pyval list"
  fetchone :: "exn + pyval"
  rowcount :: int

record 'c pg_env = py_lib +
  pg_connect :: "pyval \<Rightarrow> exn + 'c"
  pg_execute :: "'c \<Rightarrow> pyval \<Rightarrow> pyval \<Rightarrow> exn + cursor_state"
  pg_commit :: "'c \<Rightarrow> pyval \<Rightarrow> pyval \<Rightarrow> exn + unit"

datatype pg_event =
    PgConnect pyval
  | PgExecute pyval pyval
  | PgFetchAll
  | PgFetchOne
  | PgCommit
  | PgRollback
  | PgClose

definition pg_get_connection :: "'c pg_env \<Rightarrow> pyval \<Rightarrow> exn + 'c" where
  "pg_get_connection env db_url =
     (case pg_connect env db_url of
        Inl e \<Rightarrow> Inl (Exn ''Exception'' (''Connection error: '' @ str_exn e))
      | Inr conn \<Rightarrow> Inr conn)"

text \<open>
  The frame of the functions of this module: \<^verbatim>\<open>conn = None\<close>, then under \<^verbatim>\<open>try\<close> the
  connection and the block; the handler, if there is a connection, makes the requests
  \<open>cleanup\<close> (\<^verbatim>\<open>conn.close()\<close>, after \<^verbatim>\<open>conn.rollback()\<close> in \<^verbatim>\<open>execute_write\<close>) and returns
  the failure shape.
\<close>

definition with_conn ::
  "'c pg_env \<Rightarrow> pyval \<Rightarrow> pg_event list \<Rightarrow> ('c \<Rightarrow> (exn + pyval) \<times> pg_event list)
     \<Rightarrow> pyval \<times> pg_event list" where
  "with_conn env db_url cleanup block =
     (case pg_get_connection env db_url of
        Inl e \<Rightarrow> (fail_result e, [PgConnect db_url])
      | Inr conn \<Rightarrow>
          (case block conn of
             (Inr result, evs) \<Rightarrow> (result, PgConnect db_url # evs)
           | (Inl e, evs) \<Rightarrow> (fail_result e, PgConnect db_url # evs @ cleanup)))"

definition execute_query ::
  "'c pg_env \<Rightarrow> pyval \<Rightarrow> pyval \<Rightarrow> pyval \<Rightarrow> pyval \<times> pg_event list" where
  "execute_query env db_url query params =
     with_conn env db_url [PgClose] (\<lambda>conn.
       try_call (PgExecute query (py_or params (PList [])))
         (pg_execute env conn query (py_or params (PList []))) (\<lambda>cursor.
       try_call PgFetchAll (fetchall cursor) (\<lambda>rows.
       let result = rows in
       do_effect PgClose
         (Inr (PDict [(''success'', PBool True),
                      (''rows'', PList result),
                      (''count'', PInt (int (length result)))]), []))))"

definition execute_write ::
  "'c pg_env \<Rightarrow> pyval \<Rightarrow> pyval \<Rightarrow> pyval \<Rightarrow> pyval \<times> pg_event list" where
  "execute_write env db_url query params =
     with_conn env db_url [PgRollback, PgClose] (\<lambda>conn.
       try_call (PgExecute query (py_or params (PList [])))
         (pg_execute env conn query (py_or params (PList []))) (\<lambda>cursor.
       let rows_affected = rowcount cursor in
       try_call PgCommit (pg_commit env conn query (py_or params (PList []))) (\<lambda>_.
       do_effect PgClose
         (Inr (PDict [(''success'', PBool True),
                      (''rows_affected'', PInt rows_affected),
                      (''message'',
                         PStr (''Query executed successfully. '' @ str_int rows_affected
                               @ '' row(s) affected.''))]), []))))"

definition list_tables_query :: string where
  "list_tables_query =
      [CHR 0x0A] @
      ''            SELECT table_name, table_schema'' @ [CHR 0x0A] @
      ''            FROM information_schema.tables'' @ [CHR 0x0A] @
      ''            WHERE table_schema NOT IN ('pg_catalog', 'information_schema')'' @ [CHR 0x0A] @
      ''            ORDER BY table_schema, table_name;'' @ [CHR 0x0A] @
      ''        ''"

definition list_tables :: "'c pg_env \<Rightarrow> pyval \<Rightarrow> pyval \<times> pg_event list" where
  "list_tables env db_url =
     with_conn env db_url [PgClose] (\<lambda>conn.
       try_call (PgExecute (PStr list_tables_query) PNone)
         (pg_execute env conn (PStr list_tables_query) PNone) (\<lambda>cursor.
       try_call PgFetchAll (fetchall cursor) (\<lambda>rows.
       let tables = rows in
       do_effect PgClose
         (Inr (PDict [(''success'', PBool True),
                      (''tables'', PList tables),
                      (''count'', PInt (int (length tables)))]), []))))"

definition describe_table_query :: string where
  "describe_table_query =
      [CHR 0x0A] @
      ''            SELECT '' @ [CHR 0x0A] @
      ''                column_name,'' @ [CHR 0x0A] @
      ''                data_type,'' @ [CHR 0x0A] @
      ''                character_maximum_length,'' @ [CHR 0x0A] @
      ''                is_nullable,'' @ [CHR 0x0A] @
      ''                column_default'' @ [CHR 0x0A] @
      ''            FROM information_schema.columns'' @ [CHR 0x0A] @
      ''            WHERE table_name = %s'' @ [CHR 0x0A] @
      ''            ORDER BY ordinal_position;'' @ [CHR 0x0A] @
      ''        ''"

definition describe_table :: "'c pg_env \<Rightarrow> pyval \<Rightarrow> pyval \<Rightarrow> pyval \<times> pg_event list" where
  "describe_table env db_url table_name =
     with_conn env db_url [PgClose] (\<lambda>conn.
       try_call (PgExecute (PStr describe_table_query) (PList [table_name]))
         (pg_execute env conn (PStr describe_table_query) (PList [table_name])) (\<lambda>cursor.
       try_call PgFetchAll (fetchall cursor) (\<lambda>columns.
       do_effect PgClose
         (if columns = []
          then (Inr (PDict [(''success'', PBool False),
                            (''error'',
                               PStr (''Table '' @ quoted (py_str env table_name)
                                     @ '' not found''))]), [])
          else (Inr (PDict [(''success'', PBool True),
                            (''table_name'', table_name),
                            (''columns'', PList columns)]), [])))))"

text \<open>\<^verbatim>\<open>result['count']\<close> on the row \<^verbatim>\<open>fetchone()\<close> gave, which is \<^verbatim>\<open>None\<close> or a dict.\<close>

definition row_index :: "pyval \<Rightarrow> string \<Rightarrow> exn + pyval" where
  "row_index row k =
     (case row of
        PDict d \<Rightarrow> dict_index d k
      | _ \<Rightarrow> Inl (Exn ''TypeError''
                    (quoted (py_type_name row) @ '' object is not subscriptable'')))"

definition get_table_count :: "'c pg_env \<Rightarrow> pyval \<Rightarrow> pyval \<Rightarrow> pyval \<times> pg_event list" where
  "get_table_count env db_url table_name =
     with_conn env db_url [PgClose] (\<lambda>conn.
       let query = PStr (''SELECT COUNT(*) as count FROM \"'' @ py_str env table_name @ ''\"'') in
       try_call (PgExecute query PNone) (pg_execute env conn query PNone) (\<lambda>cursor.
       try_call PgFetchOne (fetchone cursor) (\<lambda>result.
       do_effect PgClose
         (try_step (row_index result ''count'') (\<lambda>count.
            (Inr (PDict [(''success'', PBool True),
                         (''table_name'', table_name),
                         (''count'', count)]), []))))))"

text \<open>
  \<^verbatim>\<open>run_custom_sql\<close> has no \<^verbatim>\<open>try\<close> of its own: \<^verbatim>\<open>sql.strip()\<close> raises
  \<^verbatim>\<open>AttributeError\<close> on anything but a string, and the exception leaves the function.
\<close>

definition run_custom_sql ::
  "'c pg_env \<Rightarrow> pyval \<Rightarrow> pyval \<Rightarrow> pyval \<Rightarrow> (exn + pyval) \<times> pg_event list" where
  "run_custom_sql env db_url sql params =
     (case sql of
        PStr s \<Rightarrow>
          (let sql_upper = upper (strip s)
           in if startswith sql_upper ''SELECT'' \<or> startswith sql_upper ''WITH''
              then (case execute_query env db_url sql params of (r, evs) \<Rightarrow> (Inr r, evs))
              else (case execute_write env db_url sql params of (r, evs) \<Rightarrow> (Inr r, evs)))
      | _ \<Rightarrow> (Inl (attribute_error sql ''strip''), []))"

section \<open>The tool registries\<close>

text \<open>
  \<^verbatim>\<open>Tool(name=..., description=..., inputSchema=...)\<close>. Each server's \<^verbatim>\<open>list_tools\<close>
  returns a literal list of descriptors; the three lists follow, in the order and with
  the content of the sources.
\<close>

datatype tool = Tool (tool_name: string) (tool_description: string) (inputSchema: pyval)

text \<open>The registry of \<^verbatim>\<open>mongodb_mcp.py\<close>.\<close>

definition mongodb_tools :: "tool list" where
  "mongodb_tools =
     [Tool ''list_databases''
        ''List all databases in MongoDB''
        (PDict [(''type'', PStr ''object''), (''properties'', PDict [])]),
      Tool ''list_collections''
        ''List all collections in a specific database''
        (PDict
           [(''type'', PStr ''object''),
            (''properties'', PDict
              [(''database_name'', PDict
                 [(''type'', PStr ''string''),
                  (''description'', PStr ''Name of the database'')])]),
            (''required'', PList [PStr ''database_name''])]),
      Tool ''find_documents''
        ''Find documents in a collection. Supports query, limit, skip, and sort options.''
        (PDict
           [(''type'', PStr ''object''),
            (''properties'', PDict
              [(''database_name'', PDict [(''type'', PStr ''string''), (''description'', PStr ''Database name'')]),
               (''collection_name'', PDict [(''type'', PStr ''string''), (''description'', PStr ''Collection name'')]),
               (''query'', PDict
                 [(''type'', PStr ''string''),
                  (''description'', PStr ''MongoDB query filter (JSON string, e.g., '{\"name\": \"John\"}')'')]),
               (''limit'', PDict
                 [(''type'', PStr ''integer''),
                  (''description'', PStr ''Maximum number of documents to return (default: 100)'')]),
               (''skip'', PDict
                 [(''type'', PStr ''integer''),
                  (''description'', PStr ''Number of documents to skip (default: 0)'')]),
               (''sort'', PDict
                 [(''type'', PStr ''string''),
                  (''description'', PStr ''Sort criteria (JSON string, e.g., '{\"name\": 1}' for ascending)'')])]),
            (''required'', PList [PStr ''database_name'', PStr ''collection_name''])]),
      Tool ''insert_document''
        ''Insert a single document into a collection''
        (PDict
           [(''type'', PStr ''object''),
            (''properties'', PDict
              [(''database_name'', PDict [(''type'', PStr ''string''), (''description'', PStr ''Database name'')]),
               (''collection_name'', PDict [(''type'', PStr ''string''), (''description'', PStr ''Collection name'')]),
               (''document'', PDict
                 [(''type'', PStr ''string''),
                  (''description'', PStr ''Document to insert (JSON string, e.g., '{\"name\": \"John\", \"age\": 30}')'')])]),
            (''required'', PList [PStr ''database_name'', PStr ''collection_name'', PStr ''document''])]),
      Tool ''insert_many_documents''
        ''Insert multiple documents into a collection''
        (PDict
           [(''type'', PStr ''object''),
            (''properties'', PDict
              [(''database_name'', PDict [(''type'', PStr ''string''), (''description'', PStr ''Database name'')]),
               (''collection_name'', PDict [(''type'', PStr ''string''), (''description'', PStr ''Collection name'')]),
               (''documents'', PDict
                 [(''type'', PStr ''string''),
                  (''description'', PStr ''Array of documents to insert (JSON string, e.g., '[{\"name\": \"John\"}, {\"name\": \"Jane\"}]')'')])]),
            (''required'', PList [PStr ''database_name'', PStr ''collection_name'', PStr ''documents''])]),
      Tool ''update_document''
        ''Update a single document in a collection''
        (PDict
           [(''type'', PStr ''object''),
            (''properties'', PDict
              [(''database_name'', PDict [(''type'', PStr ''string''), (''description'', PStr ''Database name'')]),
               (''collection_name'', PDict [(''type'', PStr ''string''), (''description'', PStr ''Collection name'')]),
               (''filter_query'', PDict
                 [(''type'', PStr ''string''),
                  (''description'', PStr ''Filter query to find document (JSON string, e.g., '{\"_id\": \"...\"}')'')]),
               (''update_data'', PDict
                 [(''type'', PStr ''string''),
                  (''description'', PStr ''Update data (JSON string, e.g., '{\"name\": \"John Updated\"}')'')]),
               (''upsert'', PDict
                 [(''type'', PStr ''boolean''),
                  (''description'', PStr ''Create document if it doesn't exist (default: false)'')])]),
            (''required'', PList [PStr ''database_name'', PStr ''collection_name'', PStr ''filter_query'', PStr ''update_data''])]),
      Tool ''update_many_documents''
        ''Update multiple documents in a collection''
        (PDict
           [(''type'', PStr ''object''),
            (''properties'', PDict
              [(''database_name'', PDict [(''type'', PStr ''string''), (''description'', PStr ''Database name'')]),
               (''collection_name'', PDict [(''type'', PStr ''string''), (''description'', PStr ''Collection name'')]),
               (''filter_query'', PDict
                 [(''type'', PStr ''string''),
                  (''description'', PStr ''Filter query to find documents'')]),
               (''update_data'', PDict
                 [(''type'', PStr ''string''),
                  (''description'', PStr ''Update data for matching documents'')]),
               (''upsert'', PDict
                 [(''type'', PStr ''boolean''),
                  (''description'', PStr ''Create documents if they don't exist'')])]),
            (''required'', PList [PStr ''database_name'', PStr ''collection_name'', PStr ''filter_query'', PStr ''update_data''])]),
      Tool ''delete_document''
        ''Delete a single document from a collection''
        (PDict
           [(''type'', PStr ''object''),
            (''properties'', PDict
              [(''database_name'', PDict [(''type'', PStr ''string''), (''description'', PStr ''Database name'')]),
               (''collection_name'', PDict [(''type'', PStr ''string''), (''description'', PStr ''Collection name'')]),
               (''filter_query'', PDict
                 [(''type'', PStr ''string''),
                  (''description'', PStr ''Filter query to find document to delete'')])]),
            (''required'', PList [PStr ''database_name'', PStr ''collection_name'', PStr ''filter_query''])]),
      Tool ''delete_many_documents''
        ''Delete multiple documents from a collection''
        (PDict
           [(''type'', PStr ''object''),
            (''properties'', PDict
              [(''database_name'', PDict [(''type'', PStr ''string''), (''description'', PStr ''Database name'')]),
               (''collection_name'', PDict [(''type'', PStr ''string''), (''description'', PStr ''Collection name'')]),
               (''filter_query'', PDict
                 [(''type'', PStr ''string''),
                  (''description'', PStr ''Filter query to find documents to delete'')])]),
            (''required'', PList [PStr ''database_name'', PStr ''collection_name'', PStr ''filter_query''])]),
      Tool ''count_documents''
        ''Count documents in a collection matching a query''
        (PDict
           [(''type'', PStr ''object''),
            (''properties'', PDict
              [(''database_name'', PDict [(''type'', PStr ''string''), (''description'', PStr ''Database name'')]),
               (''collection_name'', PDict [(''type'', PStr ''string''), (''description'', PStr ''Collection name'')]),
               (''query'', PDict
                 [(''type'', PStr ''string''),
                  (''description'', PStr ''Query filter (JSON string, optional)'')])]),
            (''required'', PList [PStr ''database_name'', PStr ''collection_name''])]),
      Tool ''aggregate''
        ''Run MongoDB aggregation pipeline''
        (PDict
           [(''type'', PStr ''object''),
            (''properties'', PDict
              [(''database_name'', PDict [(''type'', PStr ''string''), (''description'', PStr ''Database name'')]),
               (''collection_name'', PDict [(''type'', PStr ''string''), (''description'', PStr ''Collection name'')]),
               (''pipeline'', PDict
                 [(''type'', PStr ''string''),
                  (''description'', PStr ''Aggregation pipeline (JSON array string, e.g., '[{\"$match\": {...}}, {\"$group\": {...}}]')'')])]),
            (''required'', PList [PStr ''database_name'', PStr ''collection_name'', PStr ''pipeline''])])]"

text \<open>The registry of \<^verbatim>\<open>postgres_mcp.py\<close>.\<close>

definition postgres_tools :: "tool list" where
  "postgres_tools =
     [Tool ''execute_query''
        ''Execute a SELECT query and return results. Use for reading data from tables.''
        (PDict
           [(''type'', PStr ''object''),
            (''properties'', PDict
              [(''query'', PDict
                 [(''type'', PStr ''string''),
                  (''description'', PStr ''SQL SELECT query to execute'')]),
               (''params'', PDict
                 [(''type'', PStr ''array''),
                  (''description'', PStr ''Optional query parameters for parameterized queries''),
                  (''items'', PDict [(''type'', PStr ''string'')])])]),
            (''required'', PList [PStr ''query''])]),
      Tool ''execute_write''
        ''Execute INSERT, UPDATE, or DELETE queries. Use for modifying data.''
        (PDict
           [(''type'', PStr ''object''),
            (''properties'', PDict
              [(''query'', PDict
                 [(''type'', PStr ''string''),
                  (''description'', PStr ''SQL INSERT, UPDATE, or DELETE query'')]),
               (''params'', PDict
                 [(''type'', PStr ''array''),
                  (''description'', PStr ''Optional query parameters''),
                  (''items'', PDict [(''type'', PStr ''string'')])])]),
            (''required'', PList [PStr ''query''])]),
      Tool ''run_custom_sql''
        ''Execute any SQL query (SELECT, INSERT, UPDATE, DELETE, etc.). Automatically handles query type.''
        (PDict
           [(''type'', PStr ''object''),
            (''properties'', PDict
              [(''sql'', PDict
                 [(''type'', PStr ''string''),
                  (''description'', PStr ''Any SQL query to execute'')]),
               (''params'', PDict
                 [(''type'', PStr ''array''),
                  (''description'', PStr ''Optional query parameters''),
                  (''items'', PDict [(''type'', PStr ''string'')])])]),
            (''required'', PList [PStr ''sql''])]),
      Tool ''list_tables''
        ''List all tables in the database with their schemas''
        (PDict [(''type'', PStr ''object''), (''properties'', PDict [])]),
      Tool ''describe_table''
        ''Get detailed schema information for a specific table including columns, types, and constraints''
        (PDict
           [(''type'', PStr ''object''),
            (''properties'', PDict
              [(''table_name'', PDict
                 [(''type'', PStr ''string''),
                  (''description'', PStr ''Name of the table to describe'')])]),
            (''required'', PList [PStr ''table_name''])]),
      Tool ''get_table_count''
        ''Get the total number of rows in a table''
        (PDict
           [(''type'', PStr ''object''),
            (''properties'', PDict
              [(''table_name'', PDict
                 [(''type'', PStr ''string''),
                  (''description'', PStr ''Name of the table'')])]),
            (''required'', PList [PStr ''table_name''])])]"

text \<open>The registry of \<^verbatim>\<open>mcp_server.py\<close>.\<close>

definition google_tools :: "tool list" where
  "google_tools =
     [Tool ''read_sheet''
        ''Read data from a Google Sheet''
        (PDict
           [(''type'', PStr ''object''),
            (''properties'', PDict
              [(''spreadsheetId'', PDict
                 [(''type'', PStr ''string''),
                  (''description'', PStr ''The ID of the spreadsheet'')]),
               (''range'', PDict
                 [(''type'', PStr ''string''),
                  (''description'', PStr ''The range to read (e.g., 'Sheet1!A1:B10')'')])]),
            (''required'', PList [PStr ''spreadsheetId'', PStr ''range''])]),
      Tool ''write_sheet''
        ''Write data to a Google Sheet''
        (PDict
           [(''type'', PStr ''object''),
            (''properties'', PDict
              [(''spreadsheetId'', PDict [(''type'', PStr ''string'')]),
               (''range'', PDict [(''type'', PStr ''string'')]),
               (''values'', PDict
                 [(''type'', PStr ''array''),
                  (''items'', PDict
                    [(''type'', PStr ''array''),
                     (''items'', PDict [(''type'', PStr ''string'')])]),
                  (''description'', PStr ''2D array of values to write'')])]),
            (''required'', PList [PStr ''spreadsheetId'', PStr ''range'', PStr ''values''])]),
      Tool ''append_sheet''
        ''Append data to a Google Sheet''
        (PDict
           [(''type'', PStr ''object''),
            (''properties'', PDict
              [(''spreadsheetId'', PDict [(''type'', PStr ''string'')]),
               (''range'', PDict [(''type'', PStr ''string'')]),
               (''values'', PDict
                 [(''type'', PStr ''array''),
                  (''items'', PDict
                    [(''type'', PStr ''array''),
                     (''items'', PDict [(''type'', PStr ''string'')])])])]),
            (''required'', PList [PStr ''spreadsheetId'', PStr ''range'', PStr ''values''])]),
      Tool ''get_sheet_info''
        ''Get information about a Google Sheet''
        (PDict
           [(''type'', PStr ''object''),
            (''properties'', PDict [(''spreadsheetId'', PDict [(''type'', PStr ''string'')])]),
            (''required'', PList [PStr ''spreadsheetId''])]),
      Tool ''list_emails''
        ''List emails from Gmail''
        (PDict
           [(''type'', PStr ''object''),
            (''properties'', PDict
              [(''maxResults'', PDict
                 [(''type'', PStr ''integer''),
                  (''description'', PStr ''Maximum number of emails''),
                  (''default'', PInt 10)]),
               (''query'', PDict
                 [(''type'', PStr ''string''),
                  (''description'', PStr ''Gmail search query''),
                  (''default'', PStr '''')])])]),
      Tool ''get_email_detail''
        ''Get detailed information about a specific email''
        (PDict
           [(''type'', PStr ''object''),
            (''properties'', PDict
              [(''messageId'', PDict
                 [(''type'', PStr ''string''),
                  (''description'', PStr ''The Gmail message ID'')])]),
            (''required'', PList [PStr ''messageId''])]),
      Tool ''send_email''
        ''Send an email via Gmail''
        (PDict
           [(''type'', PStr ''object''),
            (''properties'', PDict
              [(''to'', PDict
                 [(''type'', PStr ''string''),
                  (''description'', PStr ''Recipient email address'')]),
               (''subject'', PDict [(''type'', PStr ''string''), (''description'', PStr ''Email subject'')]),
               (''body'', PDict
                 [(''type'', PStr ''string''),
                  (''description'', PStr ''Email body content'')]),
               (''isHtml'', PDict
                 [(''type'', PStr ''boolean''),
                  (''description'', PStr ''Whether the body is HTML''),
                  (''default'', PBool False)])]),
            (''required'', PList [PStr ''to'', PStr ''subject'', PStr ''body''])]),
      Tool ''search_emails''
        ''Search emails in Gmail''
        (PDict
           [(''type'', PStr ''object''),
            (''properties'', PDict
              [(''query'', PDict
                 [(''type'', PStr ''string''),
                  (''description'', PStr ''Gmail search query'')])]),
            (''required'', PList [PStr ''query''])]),
      Tool ''list_calendar_events''
        ''List upcoming calendar events''
        (PDict
           [(''type'', PStr ''object''),
            (''properties'', PDict
              [(''calendarId'', PDict
                 [(''type'', PStr ''string''),
                  (''description'', PStr ''Calendar ID (default: primary)''),
                  (''default'', PStr ''primary'')]),
               (''maxResults'', PDict
                 [(''type'', PStr ''integer''),
                  (''description'', PStr ''Maximum number of events''),
                  (''default'', PInt 10)]),
               (''timeMin'', PDict
                 [(''type'', PStr ''string''),
                  (''description'', PStr ''Minimum time (ISO 8601 format)'')])])]),
      Tool ''create_calendar_event''
        ''Create a new calendar event''
        (PDict
           [(''type'', PStr ''object''),
            (''properties'', PDict
              [(''calendarId'', PDict [(''type'', PStr ''string''), (''default'', PStr ''primary'')]),
               (''summary'', PDict [(''type'', PStr ''string''), (''description'', PStr ''Event title'')]),
               (''description'', PDict
                 [(''type'', PStr ''string''),
                  (''description'', PStr ''Event description'')]),
               (''start'', PDict
                 [(''type'', PStr ''string''),
                  (''description'', PStr ''Start time (ISO 8601 format)'')]),
               (''end'', PDict
                 [(''type'', PStr ''string''),
                  (''description'', PStr ''End time (ISO 8601 format)'')]),
               (''location'', PDict [(''type'', PStr ''string''), (''description'', PStr ''Event location'')]),
               (''attendees'', PDict
                 [(''type'', PStr ''array''),
                  (''items'', PDict [(''type'', PStr ''string'')]),
                  (''description'', PStr ''Array of attendee email addresses'')]),
               (''timeZone'', PDict [(''type'', PStr ''string''), (''default'', PStr ''America/Los_Angeles'')])]),
            (''required'', PList [PStr ''summary'', PStr ''start'', PStr ''end''])]),
      Tool ''update_calendar_event''
        ''Update an existing calendar event''
        (PDict
           [(''type'', PStr ''object''),
            (''properties'', PDict
              [(''calendarId'', PDict [(''type'', PStr ''string''), (''default'', PStr ''primary'')]),
               (''eventId'', PDict
                 [(''type'', PStr ''string''),
                  (''description'', PStr ''Event ID to update'')]),
               (''summary'', PDict [(''type'', PStr ''string'')]),
               (''description'', PDict [(''type'', PStr ''string'')]),
               (''start'', PDict [(''type'', PStr ''string'')]),
               (''end'', PDict [(''type'', PStr ''string'')]),
               (''location'', PDict [(''type'', PStr ''string'')]),
               (''attendees'', PDict
                 [(''type'', PStr ''array''),
                  (''items'', PDict [(''type'', PStr ''string'')])])]),
            (''required'', PList [PStr ''eventId''])]),
      Tool ''delete_calendar_event''
        ''Delete a calendar event''
        (PDict
           [(''type'', PStr ''object''),
            (''properties'', PDict
              [(''calendarId'', PDict [(''type'', PStr ''string''), (''default'', PStr ''primary'')]),
               (''eventId'', PDict
                 [(''type'', PStr ''string''),
                  (''description'', PStr ''Event ID to delete'')])]),
            (''required'', PList [PStr ''eventId''])]),
      Tool ''get_calendar_event''
        ''Get details of a specific calendar event''
        (PDict
           [(''type'', PStr ''object''),
            (''properties'', PDict
              [(''calendarId'', PDict [(''type'', PStr ''string''), (''default'', PStr ''primary'')]),
               (''eventId'', PDict [(''type'', PStr ''string''), (''description'', PStr ''Event ID'')])]),
            (''required'', PList [PStr ''eventId''])])]"

section \<open>The dispatchers\<close>

text \<open>
  A handler \<^verbatim>\<open>call_tool(name, arguments)\<close> receives the tool name, a string, and the
  argument map, a dict. Its whole body is under \<^verbatim>\<open>try\<close>; the handler of the \<^verbatim>\<open>try\<close>
  answers with the failure shape. The model of a handler returns \<open>exn + text_content list\<close>,
  \<open>Inl\<close> standing for an exception that leaves \<^verbatim>\<open>call_tool\<close>, and for the two database
  servers the driver requests made next to it.
\<close>

text \<open>A call of a backing function that returns a result and raises nothing.\<close>

definition returns :: "pyval \<times> 'e list \<Rightarrow> (exn + pyval) \<times> 'e list" where
  "returns call = (case call of (r, evs) \<Rightarrow> (Inr r, evs))"

text \<open>\<^verbatim>\<open>return [TextContent(type="text", text=json.dumps(result, indent=2, default=...))]\<close>.\<close>

definition text_reply :: "(pyval \<Rightarrow> string) option \<Rightarrow> pyval \<Rightarrow> exn + text_content list" where
  "text_reply dflt result =
     (case json_dumps dflt result of
        Inl e \<Rightarrow> Inl e
      | Inr doc \<Rightarrow> Inr [TextContent ''text'' doc])"

text \<open>
  \<^verbatim>\<open>except Exception as error:\<close>
  \<^verbatim>\<open>return [TextContent(type="text", text=json.dumps({"success": False, "error": str(error)}, indent=2))]\<close>
  around the body of a handler.
\<close>

definition catch_all :: "exn + text_content list \<Rightarrow> exn + text_content list" where
  "catch_all body =
     (case body of
        Inr reply \<Rightarrow> Inr reply
      | Inl error \<Rightarrow> text_reply None (fail_result error))"

text \<open>\<^verbatim>\<open>{"success": False, "error": f"Unknown tool: {name}"}\<close>, the last branch of each chain.\<close>

definition unknown_tool :: "string \<Rightarrow> pyval" where
  "unknown_tool name' =
     PDict [(''success'', PBool False), (''error'', PStr (''Unknown tool: '' @ name'))]"

subsection \<open>\<^verbatim>\<open>mongodb_mcp.py\<close> and \<^verbatim>\<open>postgres_mcp.py\<close>\<close>

text \<open>
  What \<^verbatim>\<open>load_config\<close> and the handler read of the file system: \<open>read_config\<close> is
  \<open>None\<close> when none of the three candidate paths exists, and otherwise what opening and
  parsing the first existing one gives or raises; \<open>config_location\<close> is
  \<^verbatim>\<open>str(config_path)\<close> and \<open>config_exists\<close> is \<^verbatim>\<open>config_path.exists()\<close> for the standard
  location.
\<close>

record config_env =
  read_config :: "(exn + pyval) option"
  config_location :: string
  config_exists :: bool

text \<open>\<^verbatim>\<open>load_config\<close>; \<open>section\<close> is \<^verbatim>\<open>'mongodb'\<close> in one server and \<^verbatim>\<open>'database'\<close> in the other.\<close>

definition load_config :: "string \<Rightarrow> config_env \<Rightarrow> pyval" where
  "load_config section files =
     (case read_config files of
        None \<Rightarrow> PDict [(section, PDict [])]
      | Some (Inr config) \<Rightarrow> config
      | Some (Inl e) \<Rightarrow> PDict [(section, PDict []), (''error'', PStr (str_exn e))])"

text \<open>
  The reply of a handler when the connection string is not configured. \<open>what\<close> and
  \<open>details\<close> are the two texts that differ between the servers.
\<close>

definition not_configured ::
  "config_env \<Rightarrow> pyval \<Rightarrow> string \<Rightarrow> string \<Rightarrow> exn + text_content list" where
  "not_configured files current_config what details =
     (case py_keys current_config of
        Inl e \<Rightarrow> Inl e
      | Inr keys \<Rightarrow>
          (let error_msg =
                 [(''success'', PBool False),
                  (''error'', PStr what),
                  (''details'', PStr details),
                  (''config_location'', PStr (config_location files)),
                  (''config_exists'', PBool (config_exists files)),
                  (''config_keys'', PList (map PStr keys))];
               error_msg =
                 (case current_config of
                    PDict d \<Rightarrow>
                      (case map_of d ''error'' of
                         None \<Rightarrow> error_msg
                       | Some v \<Rightarrow> dict_set error_msg ''config_error'' v)
                  | _ \<Rightarrow> error_msg)
           in text_reply None (PDict error_msg)))"

text \<open>The \<^verbatim>\<open>if\<close>/\<^verbatim>\<open>elif\<close> chain of \<^verbatim>\<open>mongodb_mcp.call_tool\<close> (lines 261 to 330).\<close>

definition mongodb_dispatch ::
  "('c, 'd, 'k) mongo_env \<Rightarrow> pyval \<Rightarrow> string \<Rightarrow> (string \<times> pyval) list
     \<Rightarrow> (exn + pyval) \<times> mongo_event list" where
  "mongodb_dispatch env current_mongo_uri name' arguments =
     (if name' = ''list_databases'' then
        returns (list_databases env current_mongo_uri)
      else if name' = ''list_collections'' then
        returns (list_collections env current_mongo_uri
                   (dict_get arguments ''database_name'' PNone))
      else if name' = ''find_documents'' then
        returns (find_documents env current_mongo_uri
                   (dict_get arguments ''database_name'' PNone)
                   (dict_get arguments ''collection_name'' PNone)
                   (dict_get arguments ''query'' PNone)
                   (dict_get arguments ''limit'' (PInt 100))
                   (dict_get arguments ''skip'' (PInt 0))
                   (dict_get arguments ''sort'' PNone))
      else if name' = ''insert_document'' then
        returns (insert_document env current_mongo_uri
                   (dict_get arguments ''database_name'' PNone)
                   (dict_get arguments ''collection_name'' PNone)
                   (dict_get arguments ''document'' PNone))
      else if name' = ''insert_many_documents'' then
        returns (insert_many_documents env current_mongo_uri
                   (dict_get arguments ''database_name'' PNone)
                   (dict_get arguments ''collection_name'' PNone)
                   (dict_get arguments ''documents'' PNone))
      else if name' = ''update_document'' then
        returns (update_document env current_mongo_uri
                   (dict_get arguments ''database_name'' PNone)
                   (dict_get arguments ''collection_name'' PNone)
                   (dict_get arguments ''filter_query'' PNone)
                   (dict_get arguments ''update_data'' PNone)
                   (dict_get arguments ''upsert'' (PBool False)))
      else if name' = ''update_many_documents'' then
        returns (update_many_documents env current_mongo_uri
                   (dict_get arguments ''database_name'' PNone)
                   (dict_get arguments ''collection_name'' PNone)
                   (dict_get arguments ''filter_query'' PNone)
                   (dict_get arguments ''update_data'' PNone)
                   (dict_get arguments ''upsert'' (PBool False)))
      else if name' = ''delete_document'' then
        returns (delete_document env current_mongo_uri
                   (dict_get arguments ''database_name'' PNone)
                   (dict_get arguments ''collection_name'' PNone)
                   (dict_get arguments ''filter_query'' PNone))
      else if name' = ''delete_many_documents'' then
        returns (delete_many_documents env current_mongo_uri
                   (dict_get arguments ''database_name'' PNone)
                   (dict_get arguments ''collection_name'' PNone)
                   (dict_get arguments ''filter_query'' PNone))
      else if name' = ''count_documents'' then
        returns (count_documents env current_mongo_uri
                   (dict_get arguments ''database_name'' PNone)
                   (dict_get arguments ''collection_name'' PNone)
                   (dict_get arguments ''query'' PNone))
      else if name' = ''aggregate'' then
        returns (aggregate env current_mongo_uri
                   (dict_get arguments ''database_name'' PNone)
                   (dict_get arguments ''collection_name'' PNone)
                   (dict_get arguments ''pipeline'' PNone))
      else (Inr (unknown_tool name'), []))"

text \<open>The body of \<^verbatim>\<open>mongodb_mcp.call_tool\<close> under \<^verbatim>\<open>try\<close>, and the handler.\<close>

definition mongodb_call_tool_body ::
  "config_env \<Rightarrow> ('c, 'd, 'k) mongo_env \<Rightarrow> string \<Rightarrow> (string \<times> pyval) list
     \<Rightarrow> (exn + text_content list) \<times> mongo_event list" where
  "mongodb_call_tool_body files env name' arguments =
     (let current_config = load_config ''mongodb'' files in
      try_step (py_get current_config ''mongodb'' (PDict [])) (\<lambda>section.
      try_step (py_get section ''uri'' (PStr '''')) (\<lambda>current_mongo_uri.
      if \<not> py_truthy current_mongo_uri then
        (not_configured files current_config ''MongoDB URI not configured''
           (''Please add '' @ quoted ''mongodb.uri'' @ '' to config.json''), [])
      else
        (case mongodb_dispatch env current_mongo_uri name' arguments of
           (Inl e, evs) \<Rightarrow> (Inl e, evs)
         | (Inr result, evs) \<Rightarrow> (text_reply (Some (py_str env)) result, evs)))))"

definition mongodb_call_tool ::
  "config_env \<Rightarrow> ('c, 'd, 'k) mongo_env \<Rightarrow> string \<Rightarrow> (string \<times> pyval) list
     \<Rightarrow> (exn + text_content list) \<times> mongo_event list" where
  "mongodb_call_tool files env name' arguments =
     apfst catch_all (mongodb_call_tool_body files env name' arguments)"

text \<open>The chain of \<^verbatim>\<open>postgres_mcp.call_tool\<close> (lines 169 to 196), its body and the handler.\<close>

definition postgres_dispatch ::
  "'c pg_env \<Rightarrow> pyval \<Rightarrow> string \<Rightarrow> (string \<times> pyval) list \<Rightarrow> (exn + pyval) \<times> pg_event list" where
  "postgres_dispatch env current_db_url name' arguments =
     (if name' = ''execute_query'' then
        returns (execute_query env current_db_url
                   (dict_get arguments ''query'' PNone) (dict_get arguments ''params'' PNone))
      else if name' = ''execute_write'' then
        returns (execute_write env current_db_url
                   (dict_get arguments ''query'' PNone) (dict_get arguments ''params'' PNone))
      else if name' = ''run_custom_sql'' then
        run_custom_sql env current_db_url
          (dict_get arguments ''sql'' PNone) (dict_get arguments ''params'' PNone)
      else if name' = ''list_tables'' then
        returns (list_tables env current_db_url)
      else if name' = ''describe_table'' then
        returns (describe_table env current_db_url (dict_get arguments ''table_name'' PNone))
      else if name' = ''get_table_count'' then
        returns (get_table_count env current_db_url (dict_get arguments ''table_name'' PNone))
      else (Inr (unknown_tool name'), []))"

definition postgres_call_tool_body ::
  "config_env \<Rightarrow> 'c pg_env \<Rightarrow> string \<Rightarrow> (string \<times> pyval) list
     \<Rightarrow> (exn + text_content list) \<times> pg_event list" where
  "postgres_call_tool_body files env name' arguments =
     (let current_config = load_config ''database'' files in
      try_step (py_get current_config ''database'' (PDict [])) (\<lambda>section.
      try_step (py_get section ''url'' (PStr '''')) (\<lambda>current_db_url.
      if \<not> py_truthy current_db_url then
        (not_configured files current_config ''Database URL not configured''
           (''Please add '' @ quoted ''database.url'' @ '' to config.json''), [])
      else
        (case postgres_dispatch env current_db_url name' arguments of
           (Inl e, evs) \<Rightarrow> (Inl e, evs)
         | (Inr result, evs) \<Rightarrow> (text_reply (Some (py_str env)) result, evs)))))"

definition postgres_call_tool ::
  "config_env \<Rightarrow> 'c pg_env \<Rightarrow> string \<Rightarrow> (string \<times> pyval) list
     \<Rightarrow> (exn + text_content list) \<times> pg_event list" where
  "postgres_call_tool files env name' arguments =
     apfst catch_all (postgres_call_tool_body files env name' arguments)"

subsection \<open>\<^verbatim>\<open>mcp_server.py\<close>\<close>

text \<open>
  The thirteen backing functions of \<^verbatim>\<open>google_sheets\<close>, \<^verbatim>\<open>google_gmail\<close> and
  \<^verbatim>\<open>google_calendar\<close> are calls of the Google API client. The dispatcher is modelled over
  any behaviour of theirs, a raise included: they are fields of the environment, with the
  parameters of the sources. \<open>g_read_config\<close> is what opening and parsing \<^verbatim>\<open>config.json\<close>
  gives or raises when the module is loaded.
\<close>

record google_env =
  g_read_config :: "exn + pyval"
  sheets_read_sheet_data :: "pyval \<Rightarrow> pyval \<Rightarrow> exn + pyval"
  sheets_write_sheet_data :: "pyval \<Rightarrow> pyval \<Rightarrow> pyval \<Rightarrow> exn + pyval"
  sheets_append_sheet_data :: "pyval \<Rightarrow> pyval \<Rightarrow> pyval \<Rightarrow> exn + pyval"
  sheets_get_sheet_info :: "pyval \<Rightarrow> exn + pyval"
  gmail_list_emails :: "pyval \<Rightarrow> pyval \<Rightarrow> exn + pyval"
  gmail_get_email_detail :: "pyval \<Rightarrow> exn + pyval"
  gmail_send_email :: "pyval \<Rightarrow> pyval \<Rightarrow> pyval \<Rightarrow> pyval \<Rightarrow> exn + pyval"
  gmail_search_emails :: "pyval \<Rightarrow> exn + pyval"
  calendar_list_events :: "pyval \<Rightarrow> pyval \<Rightarrow> pyval \<Rightarrow> exn + pyval"
  calendar_create_event :: "pyval \<Rightarrow> pyval \<Rightarrow> exn + pyval"
  calendar_update_event :: "pyval \<Rightarrow> pyval \<Rightarrow> pyval \<Rightarrow> exn + pyval"
  calendar_delete_event :: "pyval \<Rightarrow> pyval \<Rightarrow> exn + pyval"
  calendar_get_event :: "pyval \<Rightarrow> pyval \<Rightarrow> exn + pyval"

text \<open>\<^verbatim>\<open>load_config\<close> of this server: a bare \<^verbatim>\<open>except\<close> answers \<^verbatim>\<open>{'google': {}}\<close>.\<close>

definition google_load_config :: "google_env \<Rightarrow> pyval" where
  "google_load_config env =
     (case g_read_config env of
        Inr config \<Rightarrow> config
      | Inl e \<Rightarrow> PDict [(''google'', PDict [])])"

text \<open>A statement that may raise, followed by the rest of the block.\<close>

definition try_pure :: "exn + 'a \<Rightarrow> ('a \<Rightarrow> exn + 'b) \<Rightarrow> exn + 'b" where
  "try_pure m f = (case m of Inl e \<Rightarrow> Inl e | Inr x \<Rightarrow> f x)"

text \<open>
  \<^verbatim>\<open>arguments.get(key) or config.get("google", {}).get(key, dflt)\<close>: the configuration is
  read only when the argument is absent or falsy.
\<close>

definition arg_or_config ::
  "pyval \<Rightarrow> (string \<times> pyval) list \<Rightarrow> string \<Rightarrow> pyval \<Rightarrow> exn + pyval" where
  "arg_or_config config arguments key dflt =
     (let a = dict_get arguments key PNone
      in if py_truthy a then Inr a
         else try_pure (py_get config ''google'' (PDict [])) (\<lambda>g. py_get g key dflt))"

text \<open>The chain of \<^verbatim>\<open>mcp_server.call_tool\<close> (lines 221 to 303).\<close>

definition google_dispatch ::
  "google_env \<Rightarrow> string \<Rightarrow> (string \<times> pyval) list \<Rightarrow> exn + pyval" where
  "google_dispatch env name' arguments =
     (let config = google_load_config env in
      if name' = ''read_sheet'' then
        try_pure (arg_or_config config arguments ''spreadsheetId'' PNone) (\<lambda>spreadsheet_id.
        try_pure (dict_index arguments ''range'') (\<lambda>range.
        sheets_read_sheet_data env spreadsheet_id range))
      else if name' = ''write_sheet'' then
        try_pure (arg_or_config config arguments ''spreadsheetId'' PNone) (\<lambda>spreadsheet_id.
        try_pure (dict_index arguments ''range'') (\<lambda>range.
        try_pure (dict_index arguments ''values'') (\<lambda>values.
        sheets_write_sheet_data env spreadsheet_id range values)))
      else if name' = ''append_sheet'' then
        try_pure (arg_or_config config arguments ''spreadsheetId'' PNone) (\<lambda>spreadsheet_id.
        try_pure (dict_index arguments ''range'') (\<lambda>range.
        try_pure (dict_index arguments ''values'') (\<lambda>values.
        sheets_append_sheet_data env spreadsheet_id range values)))
      else if name' = ''get_sheet_info'' then
        try_pure (arg_or_config config arguments ''spreadsheetId'' PNone) (\<lambda>spreadsheet_id.
        sheets_get_sheet_info env spreadsheet_id)
      else if name' = ''list_emails'' then
        gmail_list_emails env
          (dict_get arguments ''maxResults'' (PInt 10))
          (dict_get arguments ''query'' (PStr ''''))
      else if name' = ''get_email_detail'' then
        try_pure (dict_index arguments ''messageId'') (\<lambda>message_id.
        gmail_get_email_detail env message_id)
      else if name' = ''send_email'' then
        try_pure (dict_index arguments ''to'') (\<lambda>to.
        try_pure (dict_index arguments ''subject'') (\<lambda>subject.
        try_pure (dict_index arguments ''body'') (\<lambda>body.
        gmail_send_email env to subject body (dict_get arguments ''isHtml'' (PBool False)))))
      else if name' = ''search_emails'' then
        try_pure (dict_index arguments ''query'') (\<lambda>query.
        gmail_search_emails env query)
      else if name' = ''list_calendar_events'' then
        try_pure (arg_or_config config arguments ''calendarId'' (PStr ''primary''))
          (\<lambda>calendar_id.
        calendar_list_events env calendar_id
          (dict_get arguments ''maxResults'' (PInt 10))
          (dict_get arguments ''timeMin'' PNone))
      else if name' = ''create_calendar_event'' then
        try_pure (arg_or_config config arguments ''calendarId'' (PStr ''primary''))
          (\<lambda>calendar_id.
        try_pure (dict_index arguments ''summary'') (\<lambda>summary.
        try_pure (dict_index arguments ''start'') (\<lambda>start.
        try_pure (dict_index arguments ''end'') (\<lambda>end'.
        calendar_create_event env calendar_id
          (PDict [(''summary'', summary),
                  (''description'', dict_get arguments ''description'' (PStr '''')),
                  (''start'', start),
                  (''end'', end'),
                  (''location'', dict_get arguments ''location'' (PStr '''')),
                  (''attendees'', dict_get arguments ''attendees'' (PList [])),
                  (''timeZone'',
                     dict_get arguments ''timeZone'' (PStr ''America/Los_Angeles''))])))))
      else if name' = ''update_calendar_event'' then
        try_pure (arg_or_config config arguments ''calendarId'' (PStr ''primary''))
          (\<lambda>calendar_id.
        try_pure (dict_index arguments ''eventId'') (\<lambda>event_id.
        calendar_update_event env calendar_id event_id
          (PDict [(''summary'', dict_get arguments ''summary'' PNone),
                  (''description'', dict_get arguments ''description'' PNone),
                  (''start'', dict_get arguments ''start'' PNone),
                  (''end'', dict_get arguments ''end'' PNone),
                  (''location'', dict_get arguments ''location'' PNone),
                  (''attendees'', dict_get arguments ''attendees'' PNone),
                  (''timeZone'',
                     dict_get arguments ''timeZone'' (PStr ''America/Los_Angeles''))])))
      else if name' = ''delete_calendar_event'' then
        try_pure (arg_or_config config arguments ''calendarId'' (PStr ''primary''))
          (\<lambda>calendar_id.
        try_pure (dict_index arguments ''eventId'') (\<lambda>event_id.
        calendar_delete_event env calendar_id event_id))
      else if name' = ''get_calendar_event'' then
        try_pure (arg_or_config config arguments ''calendarId'' (PStr ''primary''))
          (\<lambda>calendar_id.
        try_pure (dict_index arguments ''eventId'') (\<lambda>event_id.
        calendar_get_event env calendar_id event_id))
      else Inr (unknown_tool name'))"

definition google_call_tool_body ::
  "google_env \<Rightarrow> string \<Rightarrow> (string \<times> pyval) list \<Rightarrow> exn + text_content list" where
  "google_call_tool_body env name' arguments =
     try_pure (google_dispatch env name' arguments) (\<lambda>result. text_reply None result)"

definition google_call_tool ::
  "google_env \<Rightarrow> string \<Rightarrow> (string \<times> pyval) list \<Rightarrow> exn + text_content list" where
  "google_call_tool env name' arguments = catch_all (google_call_tool_body env name' arguments)"

subsection \<open>The \<^verbatim>\<open>list_tools\<close> handlers\<close>

text \<open>
  Each \<^verbatim>\<open>list_tools\<close> takes no argument and returns its literal list. As a handler of the
  running server it is modelled like \<^verbatim>\<open>call_tool\<close>: over the environment of the server,
  returning a value or an exception and, for the database servers, the driver requests
  made.
\<close>

definition mongodb_list_tools ::
  "config_env \<Rightarrow> ('c, 'd, 'k) mongo_env \<Rightarrow> (exn + tool list) \<times> mongo_event list" where
  "mongodb_list_tools files env = (Inr mongodb_tools, [])"

definition postgres_list_tools ::
  "config_env \<Rightarrow> 'c pg_env \<Rightarrow> (exn + tool list) \<times> pg_event list" where
  "postgres_list_tools files env = (Inr postgres_tools, [])"

definition google_list_tools :: "google_env \<Rightarrow> exn + tool list" where
  "google_list_tools env = Inr google_tools"

section \<open>Sample environments\<close>

text \<open>
  Concrete environments on which the theorems below are instantiated: a parser that knows
  a few documents, a MongoDB deployment and a PostgreSQL database that are reachable and
  empty, configuration files, and Google backing functions that answer with the
  arguments they received.
\<close>

definition sample_str :: "pyval \<Rightarrow> string" where
  "sample_str v =
     (case v of
        PStr s \<Rightarrow> s
      | PObjectId h \<Rightarrow> h
      | PInt i \<Rightarrow> str_int i
      | PBool b \<Rightarrow> (if b then ''True'' else ''False'')
      | PNone \<Rightarrow> ''None''
      | _ \<Rightarrow> ''...'')"

definition sample_loads :: "string \<Rightarrow> exn + pyval" where
  "sample_loads s =
     (if s = ''{}'' then Inr (PDict [])
      else if s = ''{\"_id\": \"507f1f77bcf86cd799439011\"}''
        then Inr (PDict [(''_id'', PStr ''507f1f77bcf86cd799439011'')])
      else if s = ''{\"name\": \"Ada\"}'' then Inr (PDict [(''name'', PStr ''Ada'')])
      else if s = ''{\"$inc\": {\"visits\": 1}}''
        then Inr (PDict [(''$inc'', PDict [(''visits'', PInt 1)])])
      else Inl (Exn ''JSONDecodeError'' ''Expecting value: line 1 column 1 (char 0)''))"

definition sample_ObjectId :: "pyval \<Rightarrow> exn + pyval" where
  "sample_ObjectId x =
     (case x of
        PStr s \<Rightarrow>
          (if length s = 24 then Inr (PObjectId s)
           else Inl (Exn ''InvalidId'' ''not a valid ObjectId''))
      | PObjectId h \<Rightarrow> Inr (PObjectId h)
      | _ \<Rightarrow> Inl (Exn ''TypeError'' ''id must be an instance of (bytes, str, ObjectId)''))"

definition sample_name :: "pyval \<Rightarrow> exn + string" where
  "sample_name x =
     (case x of
        PStr s \<Rightarrow> Inr s
      | _ \<Rightarrow> Inl (Exn ''TypeError'' ''name must be an instance of str''))"

definition sample_mongo :: "(unit, string, string \<times> string) mongo_env" where
  "sample_mongo =
     \<lparr> py_str = sample_str,
       json_loads = sample_loads,
       bson_ObjectId = sample_ObjectId,
       m_connect = (\<lambda>uri. if uri = PStr ''mongodb://localhost'' then Inr ()
                           else Inl (Exn ''ConnectionFailure'' ''no servers found'')),
       m_database = (\<lambda>client n. sample_name n),
       m_collection = (\<lambda>db n. case sample_name n of Inl e \<Rightarrow> Inl e | Inr c \<Rightarrow> Inr (db, c)),
       m_list_database_names = (\<lambda>client. Inr []),
       m_list_collection_names = (\<lambda>db. Inr []),
       m_find = (\<lambda>c query sort' skip limit. Inr []),
       m_insert_one = (\<lambda>c doc. Inr (PObjectId ''65f0c0ffee65f0c0ffee0001'')),
       m_insert_many = (\<lambda>c docs. Inr []),
       m_update_one = (\<lambda>c f u upsert.
          Inr \<lparr> matched_count = 0, modified_count = 0, upserted_id = PNone \<rparr>),
       m_update_many = (\<lambda>c f u upsert.
          Inr \<lparr> matched_count = 0, modified_count = 0, upserted_id = PNone \<rparr>),
       m_delete_one = (\<lambda>c f. Inr 0),
       m_delete_many = (\<lambda>c f. Inr 0),
       m_count_documents = (\<lambda>c query. Inr 0),
       m_aggregate = (\<lambda>c pipeline. Inr []) \<rparr>"

definition sample_pg :: "unit pg_env" where
  "sample_pg =
     \<lparr> py_str = sample_str,
       json_loads = sample_loads,
       pg_connect = (\<lambda>url. if url = PStr ''postgresql://localhost/app'' then Inr ()
                            else Inl (Exn ''OperationalError'' ''could not connect to server'')),
       pg_execute = (\<lambda>conn query vars.
          Inr \<lparr> fetchall = Inr [], fetchone = Inr PNone, rowcount = 0 \<rparr>),
       pg_commit = (\<lambda>conn query vars. Inr ()) \<rparr>"

definition sample_files :: config_env where
  "sample_files =
     \<lparr> read_config =
         Some (Inr (PDict [(''mongodb'', PDict [(''uri'', PStr ''mongodb://localhost'')]),
                           (''database'', PDict [(''url'', PStr ''postgresql://localhost/app'')])])),
       config_location = ''/srv/mcp/config.json'',
       config_exists = True \<rparr>"

definition no_files :: config_env where
  "no_files =
     \<lparr> read_config = None,
       config_location = ''/srv/mcp/config.json'',
       config_exists = False \<rparr>"

text \<open>A configuration file that holds a JSON array instead of an object.\<close>

definition broken_files :: config_env where
  "broken_files =
     \<lparr> read_config = Some (Inr (PList [])),
       config_location = ''/srv/mcp/config.json'',
       config_exists = True \<rparr>"

definition sample_google :: google_env where
  "sample_google =
     \<lparr> g_read_config = Inr (PDict [(''google'', PDict [(''calendarId'', PStr ''work'')])]),
       sheets_read_sheet_data = (\<lambda>a b. Inr (PList [a, b])),
       sheets_write_sheet_data = (\<lambda>a b c. Inr (PList [a, b, c])),
       sheets_append_sheet_data = (\<lambda>a b c. Inr (PList [a, b, c])),
       sheets_get_sheet_info = (\<lambda>a. Inr (PList [a])),
       gmail_list_emails = (\<lambda>a b. Inr (PList [a, b])),
       gmail_get_email_detail = (\<lambda>a. Inr (PList [a])),
       gmail_send_email = (\<lambda>a b c d. Inr (PList [a, b, c, d])),
       gmail_search_emails = (\<lambda>a. Inr (PList [a])),
       calendar_list_events = (\<lambda>a b c. Inr (PList [a, b, c])),
       calendar_create_event = (\<lambda>a b. Inr (PList [a, b])),
       calendar_update_event = (\<lambda>a b c. Inr (PList [a, b, c])),
       calendar_delete_event = (\<lambda>a b. Inr (PList [a, b])),
       calendar_get_event = (\<lambda>a b. Inr (PList [a, b])) \<rparr>"

section \<open>Notions the statements use\<close>

text \<open>
  \<^verbatim>\<open>load_config().get(section, {}).get(key, '')\<close>, the connection string the two database
  handlers compute first. A server is configured when it is a truthy value.
\<close>

definition connection_string :: "string \<Rightarrow> string \<Rightarrow> config_env \<Rightarrow> exn + pyval" where
  "connection_string section key files =
     try_pure (py_get (load_config section files) section (PDict []))
       (\<lambda>s. py_get s key (PStr ''''))"


section \<open>The dispatchers do not raise\<close>

lemma text_reply_fail_result:
  "text_reply None (fail_result e) = Inr [TextContent ''text'' (fail_result e)]"
  by (simp add: text_reply_def fail_result_def)

lemma catch_all_total:
  "catch_all body =
     Inr (case body of Inr reply \<Rightarrow> reply | Inl e \<Rightarrow> [TextContent ''text'' (fail_result e)])"
  by (simp add: catch_all_def text_reply_fail_result split: sum.split)

text \<open>
  Claim C1. For every tool name and every argument map, \<^verbatim>\<open>call_tool\<close> of each of the three
  servers returns a reply and lets no exception out; an exception raised in its body, by
  a backing function or otherwise, becomes the reply
  \<^verbatim>\<open>{"success": false, "error": str(exception)}\<close>. Exceptions are those of class
  \<^verbatim>\<open>Exception\<close>, which is what \<^verbatim>\<open>except Exception\<close> catches.
\<close>

theorem call_tool_never_raises:
  fixes env :: "('c, 'd, 'k) mongo_env" and penv :: "'p pg_env"
  shows
  "(\<exists>reply. fst (mongodb_call_tool files env name' arguments) = Inr reply) \<and>
   (\<exists>reply. fst (postgres_call_tool files penv name' arguments) = Inr reply) \<and>
   (\<exists>reply. google_call_tool genv name' arguments = Inr reply) \<and>
   (\<forall>e. fst (mongodb_call_tool_body files env name' arguments) = Inl e \<longrightarrow>
        fst (mongodb_call_tool files env name' arguments)
          = Inr [TextContent ''text''
                   (PDict [(''success'', PBool False), (''error'', PStr (str_exn e))])]) \<and>
   (\<forall>e. fst (postgres_call_tool_body files penv name' arguments) = Inl e \<longrightarrow>
        fst (postgres_call_tool files penv name' arguments)
          = Inr [TextContent ''text''
                   (PDict [(''success'', PBool False), (''error'', PStr (str_exn e))])]) \<and>
   (\<forall>e. google_call_tool_body genv name' arguments = Inl e \<longrightarrow>
        google_call_tool genv name' arguments
          = Inr [TextContent ''text''
                   (PDict [(''success'', PBool False), (''error'', PStr (str_exn e))])])"
  by (simp add: mongodb_call_tool_def postgres_call_tool_def google_call_tool_def
        catch_all_total fail_result_def)

text \<open>
  The three bodies raise at once when the configuration file holds an array and the
  tool is \<^verbatim>\<open>get_email_detail\<close> without its \<^verbatim>\<open>messageId\<close>: \<^verbatim>\<open>AttributeError\<close> in the two
  database handlers, \<^verbatim>\<open>KeyError\<close> in the third. Each handler answers with the failure
  shape.
\<close>

theorem call_tool_never_raises_witness:
  "fst (mongodb_call_tool_body broken_files sample_mongo ''get_email_detail'' [])
     = Inl (Exn ''AttributeError''
              (quoted ''list'' @ '' object has no attribute '' @ quoted ''get'')) \<and>
   fst (postgres_call_tool_body broken_files sample_pg ''get_email_detail'' [])
     = Inl (Exn ''AttributeError''
              (quoted ''list'' @ '' object has no attribute '' @ quoted ''get'')) \<and>
   google_call_tool_body sample_google ''get_email_detail'' []
     = Inl (Exn ''KeyError'' (quoted ''messageId'')) \<and>
   fst (mongodb_call_tool broken_files sample_mongo ''get_email_detail'' [])
     = Inr [TextContent ''text''
              (PDict [(''success'', PBool False),
                      (''error'', PStr (quoted ''list'' @ '' object has no attribute ''
                                        @ quoted ''get''))])] \<and>
   fst (postgres_call_tool broken_files sample_pg ''get_email_detail'' [])
     = Inr [TextContent ''text''
              (PDict [(''success'', PBool False),
                      (''error'', PStr (quoted ''list'' @ '' object has no attribute ''
                                        @ quoted ''get''))])] \<and>
   google_call_tool sample_google ''get_email_detail'' []
     = Inr [TextContent ''text''
              (PDict [(''success'', PBool False), (''error'', PStr (quoted ''messageId''))])]"
proof -
  have m: "fst (mongodb_call_tool_body broken_files sample_mongo ''get_email_detail'' [])
     = Inl (Exn ''AttributeError''
              (quoted ''list'' @ '' object has no attribute '' @ quoted ''get''))"
    by (simp add: mongodb_call_tool_body_def load_config_def broken_files_def try_step_def
          py_get_def attribute_error_def)
  have p: "fst (postgres_call_tool_body broken_files sample_pg ''get_email_detail'' [])
     = Inl (Exn ''AttributeError''
              (quoted ''list'' @ '' object has no attribute '' @ quoted ''get''))"
    by (simp add: postgres_call_tool_body_def load_config_def broken_files_def try_step_def
          py_get_def attribute_error_def)
  have g: "google_call_tool_body sample_google ''get_email_detail'' []
     = Inl (Exn ''KeyError'' (quoted ''messageId''))"
    by (simp add: google_call_tool_body_def google_dispatch_def try_pure_def dict_index_def
          key_error_def)
  show ?thesis
    using call_tool_never_raises [of broken_files sample_mongo "''get_email_detail''" "[]"
        sample_pg sample_google] m p g
    by simp
qed

section \<open>Unknown tool names\<close>

lemma mongodb_tool_names:
  "map tool_name mongodb_tools =
     [''list_databases'', ''list_collections'', ''find_documents'', ''insert_document'',
      ''insert_many_documents'', ''update_document'', ''update_many_documents'',
      ''delete_document'', ''delete_many_documents'', ''count_documents'', ''aggregate'']"
  by (simp add: mongodb_tools_def)

lemma postgres_tool_names:
  "map tool_name postgres_tools =
     [''execute_query'', ''execute_write'', ''run_custom_sql'', ''list_tables'',
      ''describe_table'', ''get_table_count'']"
  by (simp add: postgres_tools_def)

lemma google_tool_names:
  "map tool_name google_tools =
     [''read_sheet'', ''write_sheet'', ''append_sheet'', ''get_sheet_info'', ''list_emails'',
      ''get_email_detail'', ''send_email'', ''search_emails'', ''list_calendar_events'',
      ''create_calendar_event'', ''update_calendar_event'', ''delete_calendar_event'',
      ''get_calendar_event'']"
  by (simp add: google_tools_def)

lemma mongodb_dispatch_unknown:
  "name' \<notin> set (map tool_name mongodb_tools) \<Longrightarrow>
   mongodb_dispatch env uri name' arguments = (Inr (unknown_tool name'), [])"
  by (simp add: mongodb_tool_names mongodb_dispatch_def)

lemma postgres_dispatch_unknown:
  "name' \<notin> set (map tool_name postgres_tools) \<Longrightarrow>
   postgres_dispatch env url name' arguments = (Inr (unknown_tool name'), [])"
  by (simp add: postgres_tool_names postgres_dispatch_def)

lemma google_dispatch_unknown:
  "name' \<notin> set (map tool_name google_tools) \<Longrightarrow>
   google_dispatch env name' arguments = Inr (unknown_tool name')"
  by (simp add: google_tool_names google_dispatch_def)

lemma text_reply_unknown:
  "text_reply dflt (unknown_tool name') = Inr [TextContent ''text'' (unknown_tool name')]"
  by (simp add: text_reply_def unknown_tool_def)

lemma connection_string_step:
  "connection_string section key files = Inr uri \<Longrightarrow>
   try_step (py_get (load_config section files) section (PDict []))
     (\<lambda>s. try_step (py_get s key (PStr '''')) f) = f uri"
  by (auto simp: connection_string_def try_pure_def try_step_def split: sum.splits)

lemma mongodb_call_tool_unknown:
  assumes "name' \<notin> set (map tool_name mongodb_tools)"
    and "connection_string ''mongodb'' ''uri'' files = Inr uri" and "py_truthy uri"
  shows "mongodb_call_tool files env name' arguments
           = (Inr [TextContent ''text'' (unknown_tool name')], [])"
  using assms(3)
  by (simp add: mongodb_call_tool_def mongodb_call_tool_body_def Let_def
        connection_string_step[OF assms(2)] mongodb_dispatch_unknown[OF assms(1)]
        text_reply_unknown catch_all_def)

lemma postgres_call_tool_unknown:
  assumes "name' \<notin> set (map tool_name postgres_tools)"
    and "connection_string ''database'' ''url'' files = Inr url" and "py_truthy url"
  shows "postgres_call_tool files env name' arguments
           = (Inr [TextContent ''text'' (unknown_tool name')], [])"
  using assms(3)
  by (simp add: postgres_call_tool_def postgres_call_tool_body_def Let_def
        connection_string_step[OF assms(2)] postgres_dispatch_unknown[OF assms(1)]
        text_reply_unknown catch_all_def)

lemma google_call_tool_unknown:
  assumes "name' \<notin> set (map tool_name google_tools)"
  shows "google_call_tool env name' arguments = Inr [TextContent ''text'' (unknown_tool name')]"
  by (simp add: google_call_tool_def google_call_tool_body_def try_pure_def
        google_dispatch_unknown[OF assms] text_reply_unknown catch_all_def)

text \<open>
  Without a configuration file the two database handlers answer before they look at the
  tool name.
\<close>

lemma mongodb_not_configured:
  assumes "read_config files = None"
  shows "mongodb_call_tool files env name' arguments =
     (Inr [TextContent ''text''
        (PDict [(''success'', PBool False),
                (''error'', PStr ''MongoDB URI not configured''),
                (''details'',
                   PStr (''Please add '' @ quoted ''mongodb.uri'' @ '' to config.json'')),
                (''config_location'', PStr (config_location files)),
                (''config_exists'', PBool (config_exists files)),
                (''config_keys'', PList [PStr ''mongodb''])])], [])"
  by (simp add: mongodb_call_tool_def mongodb_call_tool_body_def load_config_def assms
        try_step_def py_get_def dict_get_def not_configured_def py_keys_def text_reply_def
        catch_all_def)

lemma postgres_not_configured:
  assumes "read_config files = None"
  shows "postgres_call_tool files env name' arguments =
     (Inr [TextContent ''text''
        (PDict [(''success'', PBool False),
                (''error'', PStr ''Database URL not configured''),
                (''details'',
                   PStr (''Please add '' @ quoted ''database.url'' @ '' to config.json'')),
                (''config_location'', PStr (config_location files)),
                (''config_exists'', PBool (config_exists files)),
                (''config_keys'', PList [PStr ''database''])])], [])"
  by (simp add: postgres_call_tool_def postgres_call_tool_body_def load_config_def assms
        try_step_def py_get_def dict_get_def not_configured_def py_keys_def text_reply_def
        catch_all_def)

text \<open>
  Claim C2, as stated, fails: it promises the reply \<^verbatim>\<open>Unknown tool: <name>\<close> also when
  the connection configuration is absent. With no configuration file the MongoDB handler
  answers the unregistered name \<^verbatim>\<open>unknown_op\<close> with its configuration error.
\<close>

theorem unknown_tool_unconfigured_counterexample:
  "''unknown_op'' \<notin> set (map tool_name mongodb_tools) \<and>
   fst (mongodb_call_tool no_files sample_mongo ''unknown_op'' [])
     = Inr [TextContent ''text''
        (PDict [(''success'', PBool False),
                (''error'', PStr ''MongoDB URI not configured''),
                (''details'',
                   PStr (''Please add '' @ quoted ''mongodb.uri'' @ '' to config.json'')),
                (''config_location'', PStr ''/srv/mcp/config.json''),
                (''config_exists'', PBool False),
                (''config_keys'', PList [PStr ''mongodb''])])] \<and>
   fst (mongodb_call_tool no_files sample_mongo ''unknown_op'' [])
     \<noteq> Inr [TextContent ''text''
          (PDict [(''success'', PBool False),
                  (''error'', PStr ''Unknown tool: unknown_op'')])]"
proof -
  have "read_config no_files = None"
    by (simp add: no_files_def)
  then show ?thesis
    by (simp add: mongodb_not_configured mongodb_tool_names no_files_def)
qed

text \<open>
  Claim C2, amended. For every name that is not in the server's registry and every
  argument map, \<^verbatim>\<open>call_tool\<close> returns \<^verbatim>\<open>{"success": false, "error": "Unknown tool: <name>"}\<close>
  on the Google server always, and on the MongoDB and PostgreSQL servers whenever the
  configuration gives a truthy connection string. When there is no configuration file
  these two servers answer every name with their configuration error instead. No
  exception leaves \<^verbatim>\<open>call_tool\<close> in any case.
\<close>

theorem unknown_tool_reply:
  fixes env :: "('c, 'd, 'k) mongo_env" and penv :: "'p pg_env"
  shows
  "(name' \<notin> set (map tool_name google_tools) \<longrightarrow>
      google_call_tool genv name' arguments
        = Inr [TextContent ''text''
                 (PDict [(''success'', PBool False),
                         (''error'', PStr (''Unknown tool: '' @ name'))])]) \<and>
   (name' \<notin> set (map tool_name mongodb_tools) \<longrightarrow>
    connection_string ''mongodb'' ''uri'' files = Inr uri \<longrightarrow> py_truthy uri \<longrightarrow>
      fst (mongodb_call_tool files env name' arguments)
        = Inr [TextContent ''text''
                 (PDict [(''success'', PBool False),
                         (''error'', PStr (''Unknown tool: '' @ name'))])]) \<and>
   (name' \<notin> set (map tool_name postgres_tools) \<longrightarrow>
    connection_string ''database'' ''url'' files = Inr url \<longrightarrow> py_truthy url \<longrightarrow>
      fst (postgres_call_tool files penv name' arguments)
        = Inr [TextContent ''text''
                 (PDict [(''success'', PBool False),
                         (''error'', PStr (''Unknown tool: '' @ name'))])]) \<and>
   (read_config files = None \<longrightarrow>
      (\<exists>rest. fst (mongodb_call_tool files env name' arguments)
        = Inr [TextContent ''text''
                 (PDict ((''success'', PBool False)
                         # (''error'', PStr ''MongoDB URI not configured'') # rest))]) \<and>
      (\<exists>rest. fst (postgres_call_tool files penv name' arguments)
        = Inr [TextContent ''text''
                 (PDict ((''success'', PBool False)
                         # (''error'', PStr ''Database URL not configured'') # rest))])) \<and>
   (\<exists>reply. google_call_tool genv name' arguments = Inr reply) \<and>
   (\<exists>reply. fst (mongodb_call_tool files env name' arguments) = Inr reply) \<and>
   (\<exists>reply. fst (postgres_call_tool files penv name' arguments) = Inr reply)"
proof -
  have a: "name' \<notin> set (map tool_name google_tools) \<longrightarrow>
      google_call_tool genv name' arguments
        = Inr [TextContent ''text''
                 (PDict [(''success'', PBool False),
                         (''error'', PStr (''Unknown tool: '' @ name'))])]"
    using google_call_tool_unknown [of name' genv arguments]
    by (simp add: unknown_tool_def)
  have b: "name' \<notin> set (map tool_name mongodb_tools) \<longrightarrow>
    connection_string ''mongodb'' ''uri'' files = Inr uri \<longrightarrow> py_truthy uri \<longrightarrow>
      fst (mongodb_call_tool files env name' arguments)
        = Inr [TextContent ''text''
                 (PDict [(''success'', PBool False),
                         (''error'', PStr (''Unknown tool: '' @ name'))])]"
    using mongodb_call_tool_unknown [of name' files uri env arguments]
    by (simp add: unknown_tool_def)
  have c: "name' \<notin> set (map tool_name postgres_tools) \<longrightarrow>
    connection_string ''database'' ''url'' files = Inr url \<longrightarrow> py_truthy url \<longrightarrow>
      fst (postgres_call_tool files penv name' arguments)
        = Inr [TextContent ''text''
                 (PDict [(''success'', PBool False),
                         (''error'', PStr (''Unknown tool: '' @ name'))])]"
    using postgres_call_tool_unknown [of name' files url penv arguments]
    by (simp add: unknown_tool_def)
  have d: "read_config files = None \<longrightarrow>
      (\<exists>rest. fst (mongodb_call_tool files env name' arguments)
        = Inr [TextContent ''text''
                 (PDict ((''success'', PBool False)
                         # (''error'', PStr ''MongoDB URI not configured'') # rest))]) \<and>
      (\<exists>rest. fst (postgres_call_tool files penv name' arguments)
        = Inr [TextContent ''text''
                 (PDict ((''success'', PBool False)
                         # (''error'', PStr ''Database URL not configured'') # rest))])"
    by (simp add: mongodb_not_configured postgres_not_configured)
  have e: "\<exists>reply. google_call_tool genv name' arguments = Inr reply"
    by (simp add: google_call_tool_def catch_all_total)
  have f: "\<exists>reply. fst (mongodb_call_tool files env name' arguments) = Inr reply"
    by (simp add: mongodb_call_tool_def catch_all_total)
  have g: "\<exists>reply. fst (postgres_call_tool files penv name' arguments) = Inr reply"
    by (simp add: postgres_call_tool_def catch_all_total)
  show ?thesis
    by (intro conjI a b c d e f g)
qed

text \<open>
  The name \<^verbatim>\<open>unknown_op\<close> with no arguments: on the three servers with a configuration,
  and on the two database servers without a configuration file.
\<close>

theorem unknown_tool_reply_witness:
  "''unknown_op'' \<notin> set (map tool_name google_tools) \<and>
   ''unknown_op'' \<notin> set (map tool_name mongodb_tools) \<and>
   ''unknown_op'' \<notin> set (map tool_name postgres_tools) \<and>
   connection_string ''mongodb'' ''uri'' sample_files = Inr (PStr ''mongodb://localhost'') \<and>
   connection_string ''database'' ''url'' sample_files
     = Inr (PStr ''postgresql://localhost/app'') \<and>
   read_config no_files = None \<and>
   google_call_tool sample_google ''unknown_op'' []
     = Inr [TextContent ''text''
              (PDict [(''success'', PBool False),
                      (''error'', PStr ''Unknown tool: unknown_op'')])] \<and>
   fst (mongodb_call_tool sample_files sample_mongo ''unknown_op'' [])
     = Inr [TextContent ''text''
              (PDict [(''success'', PBool False),
                      (''error'', PStr ''Unknown tool: unknown_op'')])] \<and>
   fst (postgres_call_tool sample_files sample_pg ''unknown_op'' [])
     = Inr [TextContent ''text''
              (PDict [(''success'', PBool False),
                      (''error'', PStr ''Unknown tool: unknown_op'')])] \<and>
   (\<exists>rest. fst (mongodb_call_tool no_files sample_mongo ''unknown_op'' [])
     = Inr [TextContent ''text''
              (PDict ((''success'', PBool False)
                      # (''error'', PStr ''MongoDB URI not configured'') # rest))]) \<and>
   (\<exists>rest. fst (postgres_call_tool no_files sample_pg ''unknown_op'' [])
     = Inr [TextContent ''text''
              (PDict ((''success'', PBool False)
                      # (''error'', PStr ''Database URL not configured'') # rest))])"
proof -
  have g: "''unknown_op'' \<notin> set (map tool_name google_tools)"
    by (simp add: google_tool_names)
  have m: "''unknown_op'' \<notin> set (map tool_name mongodb_tools)"
    by (simp add: mongodb_tool_names)
  have p: "''unknown_op'' \<notin> set (map tool_name postgres_tools)"
    by (simp add: postgres_tool_names)
  have cm: "connection_string ''mongodb'' ''uri'' sample_files
              = Inr (PStr ''mongodb://localhost'')"
    by (simp add: connection_string_def load_config_def sample_files_def try_pure_def
          py_get_def dict_get_def)
  have cp: "connection_string ''database'' ''url'' sample_files
              = Inr (PStr ''postgresql://localhost/app'')"
    by (simp add: connection_string_def load_config_def sample_files_def try_pure_def
          py_get_def dict_get_def)
  have n: "read_config no_files = None"
    by (simp add: no_files_def)
  have configured:
    "google_call_tool sample_google ''unknown_op'' []
       = Inr [TextContent ''text''
                (PDict [(''success'', PBool False),
                        (''error'', PStr ''Unknown tool: unknown_op'')])] \<and>
     fst (mongodb_call_tool sample_files sample_mongo ''unknown_op'' [])
       = Inr [TextContent ''text''
                (PDict [(''success'', PBool False),
                        (''error'', PStr ''Unknown tool: unknown_op'')])] \<and>
     fst (postgres_call_tool sample_files sample_pg ''unknown_op'' [])
       = Inr [TextContent ''text''
                (PDict [(''success'', PBool False),
                        (''error'', PStr ''Unknown tool: unknown_op'')])]"
    using unknown_tool_reply [of "''unknown_op''" sample_google "[]" sample_files
        "PStr ''mongodb://localhost''" sample_mongo "PStr ''postgresql://localhost/app''"
        sample_pg] g m p cm cp
    by simp
  have unconfigured:
    "(\<exists>rest. fst (mongodb_call_tool no_files sample_mongo ''unknown_op'' [])
       = Inr [TextContent ''text''
                (PDict ((''success'', PBool False)
                        # (''error'', PStr ''MongoDB URI not configured'') # rest))]) \<and>
     (\<exists>rest. fst (postgres_call_tool no_files sample_pg ''unknown_op'' [])
       = Inr [TextContent ''text''
                (PDict ((''success'', PBool False)
                        # (''error'', PStr ''Database URL not configured'') # rest))])"
    using unknown_tool_reply [of "''unknown_op''" sample_google "[]" no_files
        "PNone" sample_mongo "PNone" sample_pg] n
    by blast
  show ?thesis
    using g m p cm cp n configured unconfigured by blast
qed

section \<open>A backing function that raises\<close>

text \<open>
  Claim C3 says that no backing function lets an exception out, also when a required
  parameter is \<^verbatim>\<open>None\<close>. \<^verbatim>\<open>run_custom_sql\<close> does: the dispatcher passes \<^verbatim>\<open>None\<close> for a
  missing \<^verbatim>\<open>sql\<close> argument, and \<^verbatim>\<open>sql.strip()\<close> raises \<^verbatim>\<open>AttributeError\<close> before any
  \<^verbatim>\<open>try\<close> is entered and before any request is made.
\<close>

theorem run_custom_sql_none_raises:
  "postgres_dispatch env db_url ''run_custom_sql'' [] = run_custom_sql env db_url PNone PNone \<and>
   run_custom_sql env db_url PNone params
     = (Inl (Exn ''AttributeError''
               (quoted ''NoneType'' @ '' object has no attribute '' @ quoted ''strip'')), [])"
  by (simp add: postgres_dispatch_def dict_get_def run_custom_sql_def attribute_error_def)

section \<open>Listing the tools\<close>

text \<open>
  Claim C4. On each of the three servers \<^verbatim>\<open>list_tools\<close> returns the same descriptor list,
  in the same order, whatever the environment and however often it is called; it makes
  no request, it does not raise, and the list is not empty: eleven, six and thirteen tools
  are registered, so the empty list is the answer of no server.
\<close>

theorem list_tools_pure:
  fixes env :: "('c, 'd, 'k) mongo_env" and env' :: "('c2, 'd2, 'k2) mongo_env"
    and penv :: "'p pg_env" and penv' :: "'p2 pg_env"
  shows
  "mongodb_list_tools files env = (Inr mongodb_tools, []) \<and>
   mongodb_list_tools files' env' = (Inr mongodb_tools, []) \<and>
   postgres_list_tools files penv = (Inr postgres_tools, []) \<and>
   postgres_list_tools files' penv' = (Inr postgres_tools, []) \<and>
   google_list_tools genv = Inr google_tools \<and>
   google_list_tools genv' = Inr google_tools \<and>
   length mongodb_tools = 11 \<and> length postgres_tools = 6 \<and> length google_tools = 13 \<and>
   mongodb_tools \<noteq> [] \<and> postgres_tools \<noteq> [] \<and> google_tools \<noteq> []"
proof -
  have m: "length (map tool_name mongodb_tools) = 11"
    by (simp only: mongodb_tool_names) simp
  have p: "length (map tool_name postgres_tools) = 6"
    by (simp only: postgres_tool_names) simp
  have g: "length (map tool_name google_tools) = 13"
    by (simp only: google_tool_names) simp
  have "length mongodb_tools = 11" "length postgres_tools = 6" "length google_tools = 13"
    using m p g by simp_all
  moreover from this have "mongodb_tools \<noteq> []" "postgres_tools \<noteq> []" "google_tools \<noteq> []"
    by auto
  ultimately show ?thesis
    by (simp add: mongodb_list_tools_def postgres_list_tools_def google_list_tools_def)
qed

section \<open>Defaults of optional parameters\<close>












section \<open>Document identifiers\<close>

text \<open>
  Claim C6 says that every MongoDB operation with a filter converts a string \<^verbatim>\<open>_id\<close> to
  an ObjectId before it runs, and that identifiers come back as plain strings.
  \<^verbatim>\<open>find_documents\<close> and \<^verbatim>\<open>count_documents\<close> do not convert: whatever the environment, the
  only \<^verbatim>\<open>find\<close> or \<^verbatim>\<open>count_documents\<close> request they make for the filter
  \<^verbatim>\<open>{"_id": h}\<close> carries the string \<open>h\<close> itself. On the sample deployment the same filter,
  given as JSON text, reaches \<^verbatim>\<open>find\<close> with the string and \<^verbatim>\<open>delete_one\<close> with the
  ObjectId. A document read back has its ObjectId as the mapping \<^verbatim>\<open>{"$oid": h}\<close>, not as
  a string.
\<close>

theorem find_documents_keeps_string_id:
  fixes env :: "('c, 'd, 'k) mongo_env"
  shows
  "snd (find_documents env uri database_name collection_name (PDict [(''_id'', PStr h)])
          limit skip PNone)
     \<in> {[Connect uri], [Connect uri, Close],
        [Connect uri,
         Find database_name collection_name (PDict [(''_id'', PStr h)]) None skip limit,
         Close]} \<and>
   snd (count_documents env uri database_name collection_name (PDict [(''_id'', PStr h)]))
     \<in> {[Connect uri], [Connect uri, Close],
        [Connect uri,
         CountDocuments database_name collection_name (PDict [(''_id'', PStr h)]),
         Close]} \<and>
   snd (find_documents sample_mongo (PStr ''mongodb://localhost'') (PStr ''d'') (PStr ''c'')
          (PStr ''{\"_id\": \"507f1f77bcf86cd799439011\"}'') (PInt 100) (PInt 0) PNone)
     = [Connect (PStr ''mongodb://localhost''),
        Find (PStr ''d'') (PStr ''c'') (PDict [(''_id'', PStr ''507f1f77bcf86cd799439011'')])
          None (PInt 0) (PInt 100),
        Close] \<and>
   snd (delete_document sample_mongo (PStr ''mongodb://localhost'') (PStr ''d'') (PStr ''c'')
          (PStr ''{\"_id\": \"507f1f77bcf86cd799439011\"}''))
     = [Connect (PStr ''mongodb://localhost''),
        DeleteOne (PStr ''d'') (PStr ''c'')
          (PDict [(''_id'', PObjectId ''507f1f77bcf86cd799439011'')]),
        Close] \<and>
   bson_roundtrip (PDict [(''_id'', PObjectId h), (''name'', PStr ''Ada'')])
     = PDict [(''_id'', PDict [(''$oid'', PStr h)]), (''name'', PStr ''Ada'')]"
proof -
  have a: "snd (find_documents env uri database_name collection_name
                  (PDict [(''_id'', PStr h)]) limit skip PNone)
     \<in> {[Connect uri], [Connect uri, Close],
        [Connect uri,
         Find database_name collection_name (PDict [(''_id'', PStr h)]) None skip limit,
         Close]}"
    by (simp add: find_documents_def with_client_def try_step_def try_call_def do_effect_def
          parse_query_def parse_sort_def sort_spec_def split: sum.splits)
  have b: "snd (count_documents env uri database_name collection_name
                  (PDict [(''_id'', PStr h)]))
     \<in> {[Connect uri], [Connect uri, Close],
        [Connect uri,
         CountDocuments database_name collection_name (PDict [(''_id'', PStr h)]),
         Close]}"
    by (simp add: count_documents_def with_client_def try_step_def try_call_def do_effect_def
          parse_query_def split: sum.splits)
  have c: "snd (find_documents sample_mongo (PStr ''mongodb://localhost'') (PStr ''d'')
                  (PStr ''c'') (PStr ''{\"_id\": \"507f1f77bcf86cd799439011\"}'')
                  (PInt 100) (PInt 0) PNone)
     = [Connect (PStr ''mongodb://localhost''),
        Find (PStr ''d'') (PStr ''c'') (PDict [(''_id'', PStr ''507f1f77bcf86cd799439011'')])
          None (PInt 0) (PInt 100),
        Close]"
    by (simp add: find_documents_def with_client_def get_connection_def try_step_def
          try_call_def do_effect_def parse_query_def parse_sort_def sort_spec_def
          sample_mongo_def sample_name_def sample_loads_def)
  have d: "snd (delete_document sample_mongo (PStr ''mongodb://localhost'') (PStr ''d'')
                  (PStr ''c'') (PStr ''{\"_id\": \"507f1f77bcf86cd799439011\"}''))
     = [Connect (PStr ''mongodb://localhost''),
        DeleteOne (PStr ''d'') (PStr ''c'')
          (PDict [(''_id'', PObjectId ''507f1f77bcf86cd799439011'')]),
        Close]"
    by (simp add: delete_document_def with_client_def get_connection_def try_step_def
          try_call_def do_effect_def parse_if_str_def convert_id_def
          sample_mongo_def sample_name_def sample_loads_def sample_ObjectId_def)
  have e: "bson_roundtrip (PDict [(''_id'', PObjectId h), (''name'', PStr ''Ada'')])
     = PDict [(''_id'', PDict [(''$oid'', PStr h)]), (''name'', PStr ''Ada'')]"
    by simp
  show ?thesis
    by (intro conjI a b c d e)
qed

section \<open>Lookups that match nothing\<close>

text \<open>What \<^verbatim>\<open>json.dumps(..., default=str)\<close> leaves as it is.\<close>

lemma text_reply_list_tables:
  "text_reply dflt (PDict [(''success'', PBool True), (''tables'', PList []),
                          (''count'', PInt 0)])
     = Inr [TextContent ''text''
              (PDict [(''success'', PBool True), (''tables'', PList []), (''count'', PInt 0)])]"
  by (simp add: text_reply_def)

text \<open>
  Claim C7. When the query matches no document, \<^verbatim>\<open>find_documents\<close> returns
  \<^verbatim>\<open>success: true\<close> with \<^verbatim>\<open>documents: []\<close> and \<^verbatim>\<open>count: 0\<close> (next to the database and
  collection names it echoes), and \<^verbatim>\<open>call_tool("list_tables", {})\<close> on a configured
  database without user tables returns \<^verbatim>\<open>{"success": true, "tables": [], "count": 0}\<close>.
  In every successful result of the two operations \<^verbatim>\<open>count\<close> is the length of the list
  returned.
\<close>

theorem empty_lookup_succeeds:
  fixes env :: "('c, 'd, 'k) mongo_env" and penv :: "'p pg_env"
  shows
  "(m_connect env uri = Inr client \<longrightarrow> m_database env client database_name = Inr db \<longrightarrow>
    m_collection env db collection_name = Inr coll \<longrightarrow>
    parse_query env query = Inr q \<longrightarrow> parse_sort env sort' = Inr s \<longrightarrow>
    m_find env coll q (sort_spec s) skip limit = Inr [] \<longrightarrow>
      fst (find_documents env uri database_name collection_name query limit skip sort')
        = PDict [(''success'', PBool True),
                 (''database'', database_name),
                 (''collection'', collection_name),
                 (''documents'', PList []),
                 (''count'', PInt 0)]) \<and>
   (\<forall>r. fst (find_documents env uri database_name collection_name query limit skip sort')
          = PDict r \<longrightarrow>
        map_of r ''success'' = Some (PBool True) \<longrightarrow>
        (\<exists>docs. map_of r ''documents'' = Some (PList docs) \<and>
                map_of r ''count'' = Some (PInt (int (length docs))))) \<and>
   (connection_string ''database'' ''url'' files = Inr url \<longrightarrow> py_truthy url \<longrightarrow>
    pg_connect penv url = Inr conn \<longrightarrow>
    pg_execute penv conn (PStr list_tables_query) PNone = Inr cursor \<longrightarrow>
    fetchall cursor = Inr [] \<longrightarrow>
      fst (postgres_call_tool files penv ''list_tables'' arguments)
        = Inr [TextContent ''text''
                 (PDict [(''success'', PBool True),
                         (''tables'', PList []),
                         (''count'', PInt 0)])]) \<and>
   (\<forall>r. fst (list_tables penv url) = PDict r \<longrightarrow>
        map_of r ''success'' = Some (PBool True) \<longrightarrow>
        (\<exists>tables. map_of r ''tables'' = Some (PList tables) \<and>
                  map_of r ''count'' = Some (PInt (int (length tables)))))"
proof -
  have a: "m_connect env uri = Inr client \<longrightarrow> m_database env client database_name = Inr db \<longrightarrow>
    m_collection env db collection_name = Inr coll \<longrightarrow>
    parse_query env query = Inr q \<longrightarrow> parse_sort env sort' = Inr s \<longrightarrow>
    m_find env coll q (sort_spec s) skip limit = Inr [] \<longrightarrow>
      fst (find_documents env uri database_name collection_name query limit skip sort')
        = PDict [(''success'', PBool True),
                 (''database'', database_name),
                 (''collection'', collection_name),
                 (''documents'', PList []),
                 (''count'', PInt 0)]"
    by (simp add: find_documents_def with_client_def get_connection_def try_step_def
          try_call_def do_effect_def)
  have b: "\<forall>r. fst (find_documents env uri database_name collection_name query limit skip
                      sort') = PDict r \<longrightarrow>
        map_of r ''success'' = Some (PBool True) \<longrightarrow>
        (\<exists>docs. map_of r ''documents'' = Some (PList docs) \<and>
                map_of r ''count'' = Some (PInt (int (length docs))))"
    by (auto simp: find_documents_def with_client_def try_step_def try_call_def do_effect_def
          fail_result_def Let_def split: sum.splits)
  have c: "connection_string ''database'' ''url'' files = Inr url \<longrightarrow> py_truthy url \<longrightarrow>
    pg_connect penv url = Inr conn \<longrightarrow>
    pg_execute penv conn (PStr list_tables_query) PNone = Inr cursor \<longrightarrow>
    fetchall cursor = Inr [] \<longrightarrow>
      fst (postgres_call_tool files penv ''list_tables'' arguments)
        = Inr [TextContent ''text''
                 (PDict [(''success'', PBool True),
                         (''tables'', PList []),
                         (''count'', PInt 0)])]"
  proof (intro impI)
    assume cs: "connection_string ''database'' ''url'' files = Inr url" and t: "py_truthy url"
      and k: "pg_connect penv url = Inr conn"
      and x: "pg_execute penv conn (PStr list_tables_query) PNone = Inr cursor"
      and f: "fetchall cursor = Inr []"
    have lt: "list_tables penv url
                = (PDict [(''success'', PBool True), (''tables'', PList []),
                          (''count'', PInt 0)],
                   [PgConnect url, PgExecute (PStr list_tables_query) PNone, PgFetchAll,
                    PgClose])"
      by (simp add: list_tables_def with_conn_def pg_get_connection_def try_call_def
            do_effect_def k x f)
    show "fst (postgres_call_tool files penv ''list_tables'' arguments)
        = Inr [TextContent ''text''
                 (PDict [(''success'', PBool True),
                         (''tables'', PList []),
                         (''count'', PInt 0)])]"
      using t
      by (simp add: postgres_call_tool_def postgres_call_tool_body_def Let_def
            connection_string_step[OF cs] postgres_dispatch_def returns_def lt
            text_reply_list_tables catch_all_def)
  qed
  have d: "\<forall>r. fst (list_tables penv url) = PDict r \<longrightarrow>
        map_of r ''success'' = Some (PBool True) \<longrightarrow>
        (\<exists>tables. map_of r ''tables'' = Some (PList tables) \<and>
                  map_of r ''count'' = Some (PInt (int (length tables))))"
    by (auto simp: list_tables_def with_conn_def try_call_def do_effect_def
          fail_result_def Let_def split: sum.splits)
  show ?thesis
    by (intro conjI a b c d)
qed

text \<open>
  The sample deployment holds no document and the sample database no table: the query
  \<^verbatim>\<open>{"name": "Ada"}\<close> and \<^verbatim>\<open>list_tables\<close> both succeed with an empty list.
\<close>

theorem empty_lookup_succeeds_witness:
  "fst (find_documents sample_mongo (PStr ''mongodb://localhost'') (PStr ''d'') (PStr ''c'')
          (PStr ''{\"name\": \"Ada\"}'') (PInt 100) (PInt 0) PNone)
     = PDict [(''success'', PBool True),
              (''database'', PStr ''d''),
              (''collection'', PStr ''c''),
              (''documents'', PList []),
              (''count'', PInt 0)] \<and>
   (\<exists>docs. map_of [(''success'', PBool True),
                    (''database'', PStr ''d''),
                    (''collection'', PStr ''c''),
                    (''documents'', PList []),
                    (''count'', PInt 0)] ''documents'' = Some (PList docs) \<and>
           map_of [(''success'', PBool True),
                    (''database'', PStr ''d''),
                    (''collection'', PStr ''c''),
                    (''documents'', PList []),
                    (''count'', PInt 0)] ''count'' = Some (PInt (int (length docs)))) \<and>
   fst (postgres_call_tool sample_files sample_pg ''list_tables'' [])
     = Inr [TextContent ''text''
              (PDict [(''success'', PBool True),
                      (''tables'', PList []),
                      (''count'', PInt 0)])]"
proof -
  note inst = empty_lookup_succeeds [of sample_mongo "PStr ''mongodb://localhost''" "()"
      "PStr ''d''" "''d''" "PStr ''c''" "(''d'', ''c'')" "PStr ''{\"name\": \"Ada\"}''"
      "PDict [(''name'', PStr ''Ada'')]" PNone PNone "PInt 0" "PInt 100" sample_files
      "PStr ''postgresql://localhost/app''" sample_pg "()"
      "\<lparr> fetchall = Inr [], fetchone = Inr PNone, rowcount = 0 \<rparr>" "[]"]
  have m: "m_connect sample_mongo (PStr ''mongodb://localhost'') = Inr ()"
    "m_database sample_mongo () (PStr ''d'') = Inr ''d''"
    "m_collection sample_mongo ''d'' (PStr ''c'') = Inr (''d'', ''c'')"
    "parse_query sample_mongo (PStr ''{\"name\": \"Ada\"}'')
       = Inr (PDict [(''name'', PStr ''Ada'')])"
    "parse_sort sample_mongo PNone = Inr PNone"
    "m_find sample_mongo (''d'', ''c'') (PDict [(''name'', PStr ''Ada'')]) (sort_spec PNone)
       (PInt 0) (PInt 100) = Inr []"
    by (simp_all add: sample_mongo_def sample_name_def parse_query_def parse_sort_def
          sample_loads_def)
  have p: "connection_string ''database'' ''url'' sample_files
             = Inr (PStr ''postgresql://localhost/app'')"
    "py_truthy (PStr ''postgresql://localhost/app'')"
    "pg_connect sample_pg (PStr ''postgresql://localhost/app'') = Inr ()"
    "pg_execute sample_pg () (PStr list_tables_query) PNone
       = Inr \<lparr> fetchall = Inr [], fetchone = Inr PNone, rowcount = 0 \<rparr>"
    "fetchall \<lparr> fetchall = Inr [], fetchone = Inr PNone, rowcount = 0 \<rparr> = Inr []"
    by (simp_all add: connection_string_def load_config_def sample_files_def try_pure_def
          py_get_def dict_get_def sample_pg_def)
  have found: "fst (find_documents sample_mongo (PStr ''mongodb://localhost'') (PStr ''d'')
                      (PStr ''c'') (PStr ''{\"name\": \"Ada\"}'') (PInt 100) (PInt 0) PNone)
     = PDict [(''success'', PBool True),
              (''database'', PStr ''d''),
              (''collection'', PStr ''c''),
              (''documents'', PList []),
              (''count'', PInt 0)]"
    using inst m by blast
  have counted: "\<exists>docs. map_of [(''success'', PBool True),
                    (''database'', PStr ''d''),
                    (''collection'', PStr ''c''),
                    (''documents'', PList []),
                    (''count'', PInt 0)] ''documents'' = Some (PList docs) \<and>
           map_of [(''success'', PBool True),
                    (''database'', PStr ''d''),
                    (''collection'', PStr ''c''),
                    (''documents'', PList []),
                    (''count'', PInt 0)] ''count'' = Some (PInt (int (length docs)))"
    using inst found by simp
  have tables: "fst (postgres_call_tool sample_files sample_pg ''list_tables'' [])
     = Inr [TextContent ''text''
              (PDict [(''success'', PBool True),
                      (''tables'', PList []),
                      (''count'', PInt 0)])]"
    using inst p by blast
  show ?thesis
    using found counted tables by blast
qed

section \<open>Counting documents\<close>




section \<open>Routing of custom SQL\<close>




section \<open>The \<^verbatim>\<open>$set\<close> wrapping of updates\<close>

lemma has_operator_iff:
  "has_operator d \<longleftrightarrow> (\<exists>key \<in> set (map fst d). startswith key ''$'')"
  by (simp add: has_operator_def list_ex_iff)

text \<open>
  Claim C10. In \<^verbatim>\<open>update_document\<close> and \<^verbatim>\<open>update_many_documents\<close>, when the parsed
  \<^verbatim>\<open>update_data\<close> is a mapping, the update that reaches the driver is
  \<^verbatim>\<open>{'$set': update_data}\<close> if no key of the mapping begins with \<^verbatim>\<open>$\<close>, and the mapping
  itself, unchanged, if at least one key does.
\<close>

theorem update_data_set_wrapping:
  fixes env :: "('c, 'd, 'k) mongo_env"
  shows
  "m_connect env uri = Inr client \<longrightarrow> m_database env client database_name = Inr db \<longrightarrow>
   m_collection env db collection_name = Inr coll \<longrightarrow>
   parse_if_str env filter_query = Inr fq \<longrightarrow> parse_if_str env update_data = Inr (PDict d) \<longrightarrow>
   convert_id env fq = Inr f \<longrightarrow>
     snd (update_document env uri database_name collection_name filter_query update_data
            upsert)
       = [Connect uri,
          UpdateOne database_name collection_name f
            (if \<exists>key \<in> set (map fst d). startswith key ''$''
             then PDict d else PDict [(''$set'', PDict d)])
            upsert,
          Close] \<and>
     snd (update_many_documents env uri database_name collection_name filter_query
            update_data upsert)
       = [Connect uri,
          UpdateMany database_name collection_name f
            (if \<exists>key \<in> set (map fst d). startswith key ''$''
             then PDict d else PDict [(''$set'', PDict d)])
            upsert,
          Close]"
proof (intro impI)
  assume k: "m_connect env uri = Inr client" "m_database env client database_name = Inr db"
    "m_collection env db collection_name = Inr coll"
    and p: "parse_if_str env filter_query = Inr fq" "parse_if_str env update_data = Inr (PDict d)"
    and c: "convert_id env fq = Inr f"
  have w: "add_set_operator (PDict d)
             = Inr (if \<exists>key \<in> set (map fst d). startswith key ''$''
                    then PDict d else PDict [(''$set'', PDict d)])"
    by (simp add: add_set_operator_def has_operator_iff)
  have one: "snd (update_document env uri database_name collection_name filter_query
                    update_data upsert)
       = [Connect uri,
          UpdateOne database_name collection_name f
            (if \<exists>key \<in> set (map fst d). startswith key ''$''
             then PDict d else PDict [(''$set'', PDict d)])
            upsert,
          Close]"
    by (simp add: update_document_def with_client_def get_connection_def try_step_def
          try_call_def do_effect_def k p c w split: sum.splits)
  have many: "snd (update_many_documents env uri database_name collection_name filter_query
                     update_data upsert)
       = [Connect uri,
          UpdateMany database_name collection_name f
            (if \<exists>key \<in> set (map fst d). startswith key ''$''
             then PDict d else PDict [(''$set'', PDict d)])
            upsert,
          Close]"
    by (simp add: update_many_documents_def with_client_def get_connection_def try_step_def
          try_call_def do_effect_def k p c w split: sum.splits)
  show "snd (update_document env uri database_name collection_name filter_query update_data
               upsert)
       = [Connect uri,
          UpdateOne database_name collection_name f
            (if \<exists>key \<in> set (map fst d). startswith key ''$''
             then PDict d else PDict [(''$set'', PDict d)])
            upsert,
          Close] \<and>
     snd (update_many_documents env uri database_name collection_name filter_query
            update_data upsert)
       = [Connect uri,
          UpdateMany database_name collection_name f
            (if \<exists>key \<in> set (map fst d). startswith key ''$''
             then PDict d else PDict [(''$set'', PDict d)])
            upsert,
          Close]"
    using one many by (rule conjI)
qed

text \<open>
  On the sample deployment the update \<^verbatim>\<open>{"name": "Ada"}\<close> reaches \<^verbatim>\<open>update_one\<close> as
  \<^verbatim>\<open>{"$set": {"name": "Ada"}}\<close>, and the update \<^verbatim>\<open>{"$inc": {"visits": 1}}\<close> reaches
  \<^verbatim>\<open>update_many\<close> as it is.
\<close>

theorem update_data_set_wrapping_witness:
  "\<not> (\<exists>key \<in> set (map fst [(''name'', PStr ''Ada'')]). startswith key ''$'') \<and>
   (\<exists>key \<in> set (map fst [(''$inc'', PDict [(''visits'', PInt 1)])]). startswith key ''$'') \<and>
   snd (update_document sample_mongo (PStr ''mongodb://localhost'') (PStr ''d'') (PStr ''c'')
          (PStr ''{}'') (PStr ''{\"name\": \"Ada\"}'') (PBool False))
     = [Connect (PStr ''mongodb://localhost''),
        UpdateOne (PStr ''d'') (PStr ''c'') (PDict [])
          (PDict [(''$set'', PDict [(''name'', PStr ''Ada'')])]) (PBool False),
        Close] \<and>
   snd (update_many_documents sample_mongo (PStr ''mongodb://localhost'') (PStr ''d'')
          (PStr ''c'') (PStr ''{}'') (PStr ''{\"$inc\": {\"visits\": 1}}'') (PBool False))
     = [Connect (PStr ''mongodb://localhost''),
        UpdateMany (PStr ''d'') (PStr ''c'') (PDict [])
          (PDict [(''$inc'', PDict [(''visits'', PInt 1)])]) (PBool False),
        Close]"
proof -
  let ?uri = "PStr ''mongodb://localhost''"
  note plain = update_data_set_wrapping [of sample_mongo ?uri "()" "PStr ''d''" "''d''"
      "PStr ''c''" "(''d'', ''c'')" "PStr ''{}''" "PDict []" "PStr ''{\"name\": \"Ada\"}''"
      "[(''name'', PStr ''Ada'')]" "PDict []" "PBool False"]
  note inc = update_data_set_wrapping [of sample_mongo ?uri "()" "PStr ''d''" "''d''"
      "PStr ''c''" "(''d'', ''c'')" "PStr ''{}''" "PDict []"
      "PStr ''{\"$inc\": {\"visits\": 1}}''" "[(''$inc'', PDict [(''visits'', PInt 1)])]"
      "PDict []" "PBool False"]
  have k: "m_connect sample_mongo ?uri = Inr ()"
    "m_database sample_mongo () (PStr ''d'') = Inr ''d''"
    "m_collection sample_mongo ''d'' (PStr ''c'') = Inr (''d'', ''c'')"
    "parse_if_str sample_mongo (PStr ''{}'') = Inr (PDict [])"
    "convert_id sample_mongo (PDict []) = Inr (PDict [])"
    by (simp_all add: sample_mongo_def sample_name_def parse_if_str_def sample_loads_def
          convert_id_def)
  have p: "parse_if_str sample_mongo (PStr ''{\"name\": \"Ada\"}'')
             = Inr (PDict [(''name'', PStr ''Ada'')])"
    "parse_if_str sample_mongo (PStr ''{\"$inc\": {\"visits\": 1}}'')
             = Inr (PDict [(''$inc'', PDict [(''visits'', PInt 1)])])"
    by (simp_all add: sample_mongo_def parse_if_str_def sample_loads_def)
  have o: "\<not> (\<exists>key \<in> set (map fst [(''name'', PStr ''Ada'')]). startswith key ''$'')"
    "\<exists>key \<in> set (map fst [(''$inc'', PDict [(''visits'', PInt 1)])]). startswith key ''$''"
    by (simp_all add: startswith_def)
  have one: "snd (update_document sample_mongo ?uri (PStr ''d'') (PStr ''c'')
          (PStr ''{}'') (PStr ''{\"name\": \"Ada\"}'') (PBool False))
     = [Connect ?uri,
        UpdateOne (PStr ''d'') (PStr ''c'') (PDict [])
          (PDict [(''$set'', PDict [(''name'', PStr ''Ada'')])]) (PBool False),
        Close]"
    using plain k p(1) o(1) by simp
  have many: "snd (update_many_documents sample_mongo ?uri (PStr ''d'')
          (PStr ''c'') (PStr ''{}'') (PStr ''{\"$inc\": {\"visits\": 1}}'') (PBool False))
     = [Connect ?uri,
        UpdateMany (PStr ''d'') (PStr ''c'') (PDict [])
          (PDict [(''$inc'', PDict [(''visits'', PInt 1)])]) (PBool False),
        Close]"
    using inc k p(2) o(2) by simp
  show ?thesis
    using o one many by blast
qed

end
